theory Spec2Isabelle
  imports Main "HOL-Library.AList" "HOL-Library.Sublist"
begin

section \<open>Values, exceptions and tenants\<close>

text \<open>
  What \<open>json.loads\<close> produces, and what the configuration documents and patches
  are made of. A Python \<open>dict\<close> with string keys is an association list with
  distinct keys, in insertion order. A float keeps its literal only.
\<close>

datatype json =
    JNull
  | JBool bool
  | JInt int
  | JFloat string
  | JStr string
  | JList "json list"
  | JObj "(string \<times> json) list"

type_synonym dict = "(string \<times> json) list"

text \<open>
  What the Python code raises. \<open>Exception v\<close> is \<open>Exception(v)\<close>;
  \<open>RpcErrorCode code\<close> is \<open>Exception(f"RPC error {code}")\<close> with the code left
  unformatted, and \<open>TimeoutError method\<close> keeps the method name only (the source
  also formats the configured number of seconds into the message).
  \<open>AttributeError\<close> and \<open>TypeError\<close> are what the interpreter raises for
  \<open>x.get(...)\<close> on a value that is no \<open>dict\<close> and for iterating a value that is
  not iterable; \<open>JSONDecodeError\<close>, \<open>UnicodeDecodeError\<close> and
  \<open>RecursionError\<close> are what \<open>json.loads\<close> can raise besides \<open>TypeError\<close>.
  \<open>CancelledError\<close> (of \<open>asyncio\<close>) and \<open>KeyboardInterrupt\<close> derive from
  \<open>BaseException\<close> and not from \<open>Exception\<close>.
\<close>

datatype exn =
    Exception json
  | RpcErrorCode json
  | RuntimeError string
  | ValueError string
  | TimeoutError string
  | AttributeError
  | TypeError
  | JSONDecodeError
  | UnicodeDecodeError
  | RecursionError
  | CancelledError
  | KeyboardInterrupt

text \<open>\<open>isinstance(e, Exception)\<close>: what an \<open>except Exception\<close> clause catches.\<close>

definition is_exception :: "exn \<Rightarrow> bool" where
  "is_exception e = (case e of CancelledError \<Rightarrow> False | KeyboardInterrupt \<Rightarrow> False | _ \<Rightarrow> True)"

text \<open>\<open>d.get(k, default)\<close> on a \<open>dict\<close>, and on a value of any type.\<close>

definition dict_get :: "dict \<Rightarrow> string \<Rightarrow> json \<Rightarrow> json" where
  "dict_get d k dflt = (case map_of d k of Some v \<Rightarrow> v | None \<Rightarrow> dflt)"

definition py_get :: "json \<Rightarrow> string \<Rightarrow> json \<Rightarrow> exn + json" where
  "py_get x k dflt = (case x of JObj d \<Rightarrow> Inr (dict_get d k dflt) | _ \<Rightarrow> Inl AttributeError)"

text \<open>
  The elements a \<open>for\<close> clause or a \<open>*\<close> unpacking sees: those of a list, the
  keys of a \<open>dict\<close>, the characters of a string; anything else is not iterable.
\<close>

definition py_iter :: "json \<Rightarrow> exn + json list" where
  "py_iter x =
     (case x of
        JList xs \<Rightarrow> Inr xs
      | JObj d \<Rightarrow> Inr (map (\<lambda>(k, v). JStr k) d)
      | JStr s \<Rightarrow> Inr (map (\<lambda>c. JStr [c]) s)
      | _ \<Rightarrow> Inl TypeError)"

text \<open>
  \<open>clawdesk.models.Tenant\<close>: the context only ever reads \<open>id\<close>; the provisioner
  reads \<open>name\<close> and \<open>slug\<close>.
\<close>

record tenant =
  tenant_id :: string
  tenant_name :: string
  slug :: string

section \<open>TenancyContext\<close>

text \<open>
  A bootstrapper is an object with a name and two effectful methods. Its effects
  fall on a world \<open>'w\<close> outside the context; a method returns \<open>None\<close> when it
  returns normally and \<open>Some e\<close> when it raises \<open>e\<close>, of whatever class, together
  with the world it leaves behind.
\<close>

record 'w bootstrapper =
  name :: string
  bootstrap :: "tenant \<Rightarrow> 'w \<Rightarrow> exn option \<times> 'w"
  revert :: "'w \<Rightarrow> exn option \<times> 'w"

text \<open>One entry of the call log: a method of a bootstrapper was invoked.\<close>

datatype 'w call = Bootstrap "'w bootstrapper" tenant | Revert "'w bootstrapper"

text \<open>
  The first four fields are the attributes of the class (\<open>_bootstrappers\<close>,
  \<open>_tenant\<close>, \<open>_initialized\<close>, \<open>_initialized_bootstrappers\<close>). \<open>world\<close> is the
  state the bootstrappers and callbacks act on, \<open>calls\<close> records every invocation
  of \<open>bootstrap\<close> and \<open>revert\<close> in order, and \<open>logged\<close> is what
  \<open>logger.exception\<close> has been given: the bootstrapper's name and the exception.
\<close>

record 'w tenancy_context =
  bootstrappers :: "'w bootstrapper list"
  tenant :: "tenant option"
  initialized :: bool
  initialized_bootstrappers :: "'w bootstrapper list"
  world :: 'w
  calls :: "'w call list"
  logged :: "(string \<times> exn) list"

text \<open>\<open>TenancyContext.__init__\<close>, given the world the context starts in.\<close>

definition new_context :: "'w bootstrapper list \<Rightarrow> 'w \<Rightarrow> 'w tenancy_context" where
  "new_context bs w =
     \<lparr>bootstrappers = bs, tenant = None, initialized = False,
      initialized_bootstrappers = [], world = w, calls = [], logged = []\<rparr>"

text \<open>
  \<open>_revert_initialized\<close>: the loop body calls \<open>revert\<close>. What
  \<open>except Exception\<close> catches is logged and the loop goes on; any other
  exception leaves the loop and the method at once. \<open>revert_loop\<close> is the loop
  over the already reversed list.
\<close>

fun revert_loop ::
  "'w bootstrapper list \<Rightarrow> 'w tenancy_context \<Rightarrow> exn option \<times> 'w tenancy_context" where
  "revert_loop [] s = (None, s)"
| "revert_loop (b # bs) s =
     (case revert b (world s) of
        (None, w') \<Rightarrow>
          revert_loop bs (s\<lparr>world := w', calls := calls s @ [Revert b]\<rparr>)
      | (Some e, w') \<Rightarrow>
          if is_exception e then
            revert_loop bs (s\<lparr>world := w', calls := calls s @ [Revert b],
                              logged := logged s @ [(name b, e)]\<rparr>)
          else (Some e, s\<lparr>world := w', calls := calls s @ [Revert b]\<rparr>))"

definition revert_initialized ::
  "'w tenancy_context \<Rightarrow> exn option \<times> 'w tenancy_context" where
  "revert_initialized s = revert_loop (rev (initialized_bootstrappers s)) s"

text \<open>
  \<open>end\<close> (a keyword of Isabelle, hence the longer name). An exception that
  escapes \<open>_revert_initialized\<close> escapes \<open>end\<close> before the fields are cleared.
\<close>

definition end_tenancy :: "'w tenancy_context \<Rightarrow> exn option \<times> 'w tenancy_context" where
  "end_tenancy s =
     (if \<not> initialized s then (None, s)
      else
        (case revert_initialized s of
           (Some e, s1) \<Rightarrow> (Some e, s1)
         | (None, s1) \<Rightarrow>
             (None, s1\<lparr>tenant := None, initialized := False, initialized_bootstrappers := []\<rparr>)))"

text \<open>
  The \<open>for\<close> loop of \<open>initialize\<close>. A successful \<open>bootstrap\<close> appends the
  bootstrapper to the stack. What \<open>except Exception\<close> catches makes the handler
  revert the stack, clear \<open>_tenant\<close> and \<open>_initialized\<close> (not the stack) and
  re-raise; an exception that escapes \<open>_revert_initialized\<close> inside the handler
  takes its place, with nothing cleared. Any other exception of \<open>bootstrap\<close>
  leaves the method at once.
\<close>

fun bootstrap_loop ::
  "tenant \<Rightarrow> 'w bootstrapper list \<Rightarrow> 'w tenancy_context \<Rightarrow> exn option \<times> 'w tenancy_context" where
  "bootstrap_loop t [] s = (None, s)"
| "bootstrap_loop t (b # bs) s =
     (case bootstrap b t (world s) of
        (None, w') \<Rightarrow>
          bootstrap_loop t bs
            (s\<lparr>world := w', calls := calls s @ [Bootstrap b t],
               initialized_bootstrappers := initialized_bootstrappers s @ [b]\<rparr>)
      | (Some e, w') \<Rightarrow>
          if is_exception e then
            (case revert_initialized (s\<lparr>world := w', calls := calls s @ [Bootstrap b t]\<rparr>) of
               (Some e', s1) \<Rightarrow> (Some e', s1)
             | (None, s1) \<Rightarrow> (Some e, s1\<lparr>tenant := None, initialized := False\<rparr>))
          else (Some e, s\<lparr>world := w', calls := calls s @ [Bootstrap b t]\<rparr>))"

definition same_tenant :: "'w tenancy_context \<Rightarrow> tenant \<Rightarrow> bool" where
  "same_tenant s t =
     (initialized s \<and> (case tenant s of None \<Rightarrow> False | Some cur \<Rightarrow> tenant_id cur = tenant_id t))"

definition initialize :: "tenant \<Rightarrow> 'w tenancy_context \<Rightarrow> exn option \<times> 'w tenancy_context" where
  "initialize t s =
     (if same_tenant s t then (None, s)
      else
        (case (if initialized s then end_tenancy s else (None, s)) of
           (Some e, s1) \<Rightarrow> (Some e, s1)
         | (None, s1) \<Rightarrow>
             (let s2 = s1\<lparr>tenant := Some t, initialized_bootstrappers := []\<rparr>
              in case bootstrap_loop t (bootstrappers s2) s2 of
                   (Some e, s3) \<Rightarrow> (Some e, s3)
                 | (None, s3) \<Rightarrow> (None, s3\<lparr>initialized := True\<rparr>))))"

text \<open>
  The \<open>finally\<close> block of \<open>run\<close> and the tail of \<open>run_for_multiple\<close>:
  re-initialize the tenant recorded before the call, or end.
\<close>

definition restore :: "tenant option \<Rightarrow> 'w tenancy_context \<Rightarrow> exn option \<times> 'w tenancy_context" where
  "restore previous_tenant s =
     (case previous_tenant of
        Some p \<Rightarrow> initialize p s
      | None \<Rightarrow> end_tenancy s)"

text \<open>
  A callback is awaited with the tenant and acts on the world; it returns a value
  (\<open>Inr\<close>) or raises (\<open>Inl\<close>). It does not call back into the context.

  \<open>run\<close>: the \<open>try\<close> body is \<open>initialize\<close> then the callback; the \<open>finally\<close>
  block always runs, and an exception raised inside it replaces whatever the body
  produced.
\<close>

definition run ::
  "tenant \<Rightarrow> (tenant \<Rightarrow> 'w \<Rightarrow> (exn + 'r) \<times> 'w) \<Rightarrow> 'w tenancy_context
     \<Rightarrow> (exn + 'r) \<times> 'w tenancy_context" where
  "run t callback s =
     (let previous_tenant = tenant s;
          (body, s2) =
            (case initialize t s of
               (Some e, s1) \<Rightarrow> (Inl e, s1)
             | (None, s1) \<Rightarrow>
                 (case callback t (world s1) of (r, w) \<Rightarrow> (r, s1\<lparr>world := w\<rparr>)))
      in case restore previous_tenant s2 of
           (Some e, s3) \<Rightarrow> (Inl e, s3)
         | (None, s3) \<Rightarrow> (body, s3))"

text \<open>\<open>central\<close>: nothing is caught, so whatever raises ends the call at once.\<close>

definition central ::
  "(tenant option \<Rightarrow> 'w \<Rightarrow> (exn + 'r) \<times> 'w) \<Rightarrow> 'w tenancy_context
     \<Rightarrow> (exn + 'r) \<times> 'w tenancy_context" where
  "central callback s =
     (let previous_tenant = tenant s
      in case end_tenancy s of
           (Some e, s1) \<Rightarrow> (Inl e, s1)
         | (None, s1) \<Rightarrow>
             (case callback previous_tenant (world s1) of
                (Inl e, w) \<Rightarrow> (Inl e, s1\<lparr>world := w\<rparr>)
              | (Inr result, w) \<Rightarrow>
                  (case previous_tenant of
                     Some p \<Rightarrow>
                       (case initialize p (s1\<lparr>world := w\<rparr>) of
                          (Some e, s2) \<Rightarrow> (Inl e, s2)
                        | (None, s2) \<Rightarrow> (Inr result, s2))
                   | None \<Rightarrow> (Inr result, s1\<lparr>world := w\<rparr>))))"

text \<open>The \<open>for\<close> loop of \<open>run_for_multiple\<close>; the callback's value is discarded.\<close>

fun multiple_loop ::
  "tenant list \<Rightarrow> (tenant \<Rightarrow> 'w \<Rightarrow> (exn + 'r) \<times> 'w) \<Rightarrow> 'w tenancy_context
     \<Rightarrow> exn option \<times> 'w tenancy_context" where
  "multiple_loop [] callback s = (None, s)"
| "multiple_loop (t # ts) callback s =
     (case initialize t s of
        (Some e, s1) \<Rightarrow> (Some e, s1)
      | (None, s1) \<Rightarrow>
          (case callback t (world s1) of
             (Inl e, w) \<Rightarrow> (Some e, s1\<lparr>world := w\<rparr>)
           | (Inr _, w) \<Rightarrow> multiple_loop ts callback (s1\<lparr>world := w\<rparr>)))"

definition run_for_multiple ::
  "tenant list \<Rightarrow> (tenant \<Rightarrow> 'w \<Rightarrow> (exn + 'r) \<times> 'w) \<Rightarrow> 'w tenancy_context
     \<Rightarrow> exn option \<times> 'w tenancy_context" where
  "run_for_multiple tenants callback s =
     (let original_tenant = tenant s
      in case multiple_loop tenants callback s of
           (Some e, s1) \<Rightarrow> (Some e, s1)
         | (None, s1) \<Rightarrow> restore original_tenant s1)"

section \<open>TenantProvisioner: the agent registry in the gateway's configuration\<close>

text \<open>\<open>OpenClawConfigSnapshot\<close>: a validated \<open>dict\<close> and the hash it was read at.\<close>

record snapshot =
  config :: dict
  hash :: string

text \<open>
  \<open>GatewayClientProtocol\<close>: the two methods the provisioner awaits, acting on a
  gateway state \<open>'g\<close>. \<open>get_config\<close> returns a snapshot or raises;
  \<open>patch_config\<close> returns normally (\<open>None\<close>) or raises.
\<close>

record 'g gateway =
  get_config :: "'g \<Rightarrow> (exn + snapshot) \<times> 'g"
  patch_config :: "dict \<Rightarrow> string \<Rightarrow> 'g \<Rightarrow> exn option \<times> 'g"

text \<open>One entry of the log of calls made on the gateway.\<close>

datatype rpc = ConfigGet | ConfigPatch dict string

record 'g remote =
  gw_state :: 'g
  rpcs :: "rpc list"

text \<open>\<open>OpenClawAgentConfig\<close> and its \<open>model_dump(exclude_none=True)\<close>.\<close>

record agent_config =
  agent_id :: string
  agent_name :: "string option"
  workspace :: "string option"
  model :: "json option"
  skills :: "string list option"
  sandbox :: "dict option"
  identity :: "(string \<times> string) list option"

definition dump_field :: "string \<Rightarrow> json option \<Rightarrow> dict" where
  "dump_field k v = (case v of None \<Rightarrow> [] | Some x \<Rightarrow> [(k, x)])"

definition model_dump :: "agent_config \<Rightarrow> json" where
  "model_dump a =
     JObj ([(''id'', JStr (agent_id a))]
         @ dump_field ''name'' (map_option JStr (agent_name a))
         @ dump_field ''workspace'' (map_option JStr (workspace a))
         @ dump_field ''model'' (model a)
         @ dump_field ''skills'' (map_option (\<lambda>xs. JList (map JStr xs)) (skills a))
         @ dump_field ''sandbox'' (map_option JObj (sandbox a))
         @ dump_field ''identity''
             (map_option (\<lambda>d. JObj (map (\<lambda>(k, v). (k, JStr v)) d)) (identity a)))"

text \<open>
  \<open>any(a.get("id") == agent_id for a in agent_list)\<close>: stops at the first match;
  an entry that is no \<open>dict\<close> met before that raises.
\<close>

fun any_has_id :: "json list \<Rightarrow> string \<Rightarrow> exn + bool" where
  "any_has_id [] i = Inr False"
| "any_has_id (a # as) i =
     (case py_get a ''id'' JNull of
        Inl e \<Rightarrow> Inl e
      | Inr v \<Rightarrow> if v = JStr i then Inr True else any_has_id as i)"

text \<open>\<open>[a for a in agent_list if a.get("id") != agent_id]\<close>.\<close>

fun without_id :: "json list \<Rightarrow> string \<Rightarrow> exn + json list" where
  "without_id [] i = Inr []"
| "without_id (a # as) i =
     (case py_get a ''id'' JNull of
        Inl e \<Rightarrow> Inl e
      | Inr v \<Rightarrow>
          (case without_id as i of
             Inl e \<Rightarrow> Inl e
           | Inr rest \<Rightarrow> Inr (if v \<noteq> JStr i then a # rest else rest)))"

text \<open>\<open>{"agents": {**agents, "list": new_list}}\<close>.\<close>

definition agents_patch :: "dict \<Rightarrow> json list \<Rightarrow> dict" where
  "agents_patch agents new_list = [(''agents'', JObj (AList.update ''list'' (JList new_list) agents))]"

text \<open>The awaited gateway methods, with the call recorded.\<close>

definition call_get_config :: "'g gateway \<Rightarrow> 'g remote \<Rightarrow> (exn + snapshot) \<times> 'g remote" where
  "call_get_config gw r =
     (case get_config gw (gw_state r) of
        (res, g) \<Rightarrow> (res, r\<lparr>gw_state := g, rpcs := rpcs r @ [ConfigGet]\<rparr>))"

definition call_patch_config :: "'g gateway \<Rightarrow> dict \<Rightarrow> string \<Rightarrow> 'g remote \<Rightarrow> exn option \<times> 'g remote" where
  "call_patch_config gw patch base_hash r =
     (case patch_config gw patch base_hash (gw_state r) of
        (res, g) \<Rightarrow> (res, r\<lparr>gw_state := g, rpcs := rpcs r @ [ConfigPatch patch base_hash]\<rparr>))"

text \<open>
  \<open>_add_agent_to_config\<close>. \<open>config\<close> is a \<open>dict\<close>; the value under
  \<open>"agents"\<close> can be anything, and \<open>agents.get\<close> raises unless it is a \<open>dict\<close>.
\<close>

definition add_agent_to_config ::
  "'g gateway \<Rightarrow> agent_config \<Rightarrow> 'g remote \<Rightarrow> exn option \<times> 'g remote" where
  "add_agent_to_config gw agent r =
     (case call_get_config gw r of
        (Inl e, r1) \<Rightarrow> (Some e, r1)
      | (Inr snap, r1) \<Rightarrow>
          (case dict_get (config snap) ''agents'' (JObj []) of
             JObj agents \<Rightarrow>
               (case py_iter (dict_get agents ''list'' (JList [])) of
                  Inl e \<Rightarrow> (Some e, r1)
                | Inr agent_list \<Rightarrow>
                    (case any_has_id agent_list (agent_id agent) of
                       Inl e \<Rightarrow> (Some e, r1)
                     | Inr True \<Rightarrow>
                         (Some (ValueError (''Agent '' @ agent_id agent @ '' already exists'')), r1)
                     | Inr False \<Rightarrow>
                         call_patch_config gw
                           (agents_patch agents (agent_list @ [model_dump agent])) (hash snap) r1))
           | _ \<Rightarrow> (Some AttributeError, r1)))"

text \<open>\<open>_remove_agent_from_config\<close>.\<close>

definition remove_agent_from_config ::
  "'g gateway \<Rightarrow> string \<Rightarrow> 'g remote \<Rightarrow> exn option \<times> 'g remote" where
  "remove_agent_from_config gw target r =
     (case call_get_config gw r of
        (Inl e, r1) \<Rightarrow> (Some e, r1)
      | (Inr snap, r1) \<Rightarrow>
          (case dict_get (config snap) ''agents'' (JObj []) of
             JObj agents \<Rightarrow>
               (case py_iter (dict_get agents ''list'' (JList [])) of
                  Inl e \<Rightarrow> (Some e, r1)
                | Inr agent_list \<Rightarrow>
                    (case without_id agent_list target of
                       Inl e \<Rightarrow> (Some e, r1)
                     | Inr filtered \<Rightarrow>
                         if length filtered = length agent_list then (None, r1)
                         else call_patch_config gw (agents_patch agents filtered) (hash snap) r1))
           | _ \<Rightarrow> (Some AttributeError, r1)))"

section \<open>GatewayClient: the table of pending requests\<close>

text \<open>
  The state of an \<open>asyncio.Future\<close>. \<open>done()\<close> holds in every state but the
  first.
\<close>

datatype future = Waiting | Result json | Failed exn | Cancelled

definition is_done :: "future \<Rightarrow> bool" where
  "is_done f = (f \<noteq> Waiting)"

text \<open>
  The event loop runs the code between two \<open>await\<close>s without interruption, so
  each function below is one such stretch of a coroutine.
  \<open>_request_id\<close> and \<open>_pending\<close> are the attributes of the class. A future is
  an object shared by the table and the coroutine awaiting it, so the futures live
  in a store, \<open>futures\<close>, addressed by position; \<open>sent\<close> is what has been
  written to the socket: id, method and params of each frame.
\<close>

record gateway_client =
  request_id :: int
  pending :: "int \<rightharpoonup> nat"
  futures :: "future list"
  sent :: "(int \<times> string \<times> json) list"

definition new_client :: gateway_client where
  "new_client = \<lparr>request_id = 0, pending = Map.empty, futures = [], sent = []\<rparr>"

text \<open>
  \<open>_request\<close>, up to the point where it starts waiting: a fresh id, a fresh
  future registered under it, the frame sent. Returns the id and the future.
  The connection is taken to be open and the \<open>send\<close> to succeed.
\<close>

definition request_begin :: "string \<Rightarrow> json \<Rightarrow> gateway_client \<Rightarrow> (int \<times> nat) \<times> gateway_client" where
  "request_begin method params c =
     (let req_id = request_id c + 1;
          fut = length (futures c)
      in ((req_id, fut),
          c\<lparr>request_id := req_id,
            futures := futures c @ [Waiting],
            pending := (pending c)(req_id \<mapsto> fut),
            sent := sent c @ [(req_id, method, params)]\<rparr>))"

text \<open>
  What \<open>asyncio.wait_for\<close> does when it runs out of time: it cancels the future
  it was waiting for, and \<open>asyncio.TimeoutError\<close> is raised in \<open>_request\<close>.
\<close>

definition wait_for_expires :: "nat \<Rightarrow> gateway_client \<Rightarrow> gateway_client" where
  "wait_for_expires fut c = c\<lparr>futures := (futures c)[fut := Cancelled]\<rparr>"

text \<open>
  The handler of \<open>asyncio.TimeoutError\<close> in \<open>_request\<close>: it pops the request's
  own id and raises. The reader may have run between the cancellation and the
  handler, so the handler is a step of its own.
\<close>

definition request_timeout :: "string \<Rightarrow> int \<Rightarrow> gateway_client \<Rightarrow> exn \<times> gateway_client" where
  "request_timeout method req_id c =
     (TimeoutError method, c\<lparr>pending := (pending c)(req_id := None)\<rparr>)"

text \<open>\<open>_request\<close> when the future was resolved in time: its result, or its exception.\<close>

definition request_result :: "nat \<Rightarrow> gateway_client \<Rightarrow> (exn + json) option" where
  "request_result fut c =
     (if fut < length (futures c) then
        (case futures c ! fut of
           Result v \<Rightarrow> Some (Inr v)
         | Failed e \<Rightarrow> Some (Inl e)
         | _ \<Rightarrow> None)
      else None)"

text \<open>\<open>isinstance(msg_id, int)\<close>: Python's \<open>bool\<close> is a subclass of \<open>int\<close>.\<close>

definition as_int :: "json \<Rightarrow> int option" where
  "as_int v = (case v of JInt n \<Rightarrow> Some n | JBool b \<Rightarrow> Some (if b then 1 else 0) | _ \<Rightarrow> None)"

text \<open>
  One turn of the loop of \<open>_read_loop\<close>, on what \<open>json.loads\<close> made of the
  frame: a value, or an exception. The loop catches \<open>json.JSONDecodeError\<close> and
  \<open>TypeError\<close> there and goes on to the next frame. \<open>None\<close> in the result is
  \<open>continue\<close> or the end of the body; \<open>Some e\<close> is an exception that no handler
  in the body catches: another failure of \<open>json.loads\<close>, or the
  \<open>AttributeError\<close> of \<open>msg.get\<close> and \<open>err.get\<close> on a value that is no
  \<open>dict\<close>.
\<close>

definition read_frame :: "exn + json \<Rightarrow> gateway_client \<Rightarrow> exn option \<times> gateway_client" where
  "read_frame loaded c =
     (case loaded of
        Inl e \<Rightarrow> if e = JSONDecodeError \<or> e = TypeError then (None, c) else (Some e, c)
      | Inr (JObj msg) \<Rightarrow>
          (case as_int (dict_get msg ''id'' JNull) of
             None \<Rightarrow> (None, c)
           | Some msg_id \<Rightarrow>
               (case pending c msg_id of
                  None \<Rightarrow> (None, c)
                | Some fut \<Rightarrow>
                    (let c1 = c\<lparr>pending := (pending c)(msg_id := None)\<rparr>
                     in if is_done (futures c1 ! fut) then (None, c1)
                        else
                          (case map_of msg ''error'' of
                             Some (JObj err) \<Rightarrow>
                               (None,
                                c1\<lparr>futures := (futures c1)
                                     [fut := Failed
                                        (case map_of err ''message'' of
                                           Some m \<Rightarrow> Exception m
                                         | None \<Rightarrow> RpcErrorCode (dict_get err ''code'' JNull))]\<rparr>)
                           | Some _ \<Rightarrow> (Some AttributeError, c1)
                           | None \<Rightarrow>
                               (None,
                                c1\<lparr>futures := (futures c1)
                                     [fut := Result (dict_get msg ''result'' (JObj []))]\<rparr>)))))
      | Inr _ \<Rightarrow> (Some AttributeError, c))"

text \<open>
  The loop itself, over the frames received; it ends at the first escaping
  exception. (Of those, the source catches \<open>CancelledError\<close> and the closing of
  the connection around the loop; neither arises inside the body.)
\<close>

fun read_loop :: "(exn + json) list \<Rightarrow> gateway_client \<Rightarrow> exn option \<times> gateway_client" where
  "read_loop [] c = (None, c)"
| "read_loop (raw # raws) c =
     (case read_frame raw c of
        (Some e, c1) \<Rightarrow> (Some e, c1)
      | (None, c1) \<Rightarrow> read_loop raws c1)"

section \<open>Test doubles\<close>

text \<open>
  \<open>FakeBootstrapper\<close> of \<open>tests/test_context.py\<close>: the world is the log shared
  by the bootstrappers and the callbacks of a test.
\<close>

definition fake_bootstrapper :: "string \<Rightarrow> bool \<Rightarrow> string list bootstrapper" where
  "fake_bootstrapper nm fail_on_bootstrap =
     \<lparr>name = nm,
      bootstrap = (\<lambda>t log.
        (if fail_on_bootstrap then Some (RuntimeError (nm @ '' failed'')) else None,
         log @ [nm @ '':up''])),
      revert = (\<lambda>log. (None, log @ [nm @ '':down'']))\<rparr>"

text \<open>A bootstrapper whose \<open>revert\<close> always raises.\<close>

definition failing_revert_bootstrapper :: "string \<Rightarrow> string list bootstrapper" where
  "failing_revert_bootstrapper nm =
     \<lparr>name = nm,
      bootstrap = (\<lambda>t log. (None, log @ [nm @ '':up''])),
      revert = (\<lambda>log. (Some (RuntimeError (nm @ '' revert failed'')), log @ [nm @ '':down'']))\<rparr>"

text \<open>A bootstrapper whose \<open>bootstrap\<close> raises once it has been called \<open>limit\<close> times.\<close>

definition flaky_bootstrapper :: "string \<Rightarrow> nat \<Rightarrow> string list bootstrapper" where
  "flaky_bootstrapper nm limit =
     \<lparr>name = nm,
      bootstrap = (\<lambda>t log.
        (if limit \<le> length (filter (\<lambda>l. l = nm @ '':up'') log)
         then Some (RuntimeError (nm @ '' failed'')) else None,
         log @ [nm @ '':up''])),
      revert = (\<lambda>log. (None, log @ [nm @ '':down'']))\<rparr>"

text \<open>
  Bootstrappers cancelled while they run: \<open>asyncio.CancelledError\<close> comes out of
  \<open>bootstrap\<close>, or out of \<open>revert\<close>.
\<close>

definition cancelled_bootstrapper :: "string \<Rightarrow> string list bootstrapper" where
  "cancelled_bootstrapper nm =
     \<lparr>name = nm,
      bootstrap = (\<lambda>t log. (Some CancelledError, log @ [nm @ '':up''])),
      revert = (\<lambda>log. (None, log @ [nm @ '':down'']))\<rparr>"

definition cancelled_revert_bootstrapper :: "string \<Rightarrow> string list bootstrapper" where
  "cancelled_revert_bootstrapper nm =
     \<lparr>name = nm,
      bootstrap = (\<lambda>t log. (None, log @ [nm @ '':up''])),
      revert = (\<lambda>log. (Some CancelledError, log @ [nm @ '':down'']))\<rparr>"

definition bA :: "string list bootstrapper" where "bA = fake_bootstrapper ''A'' False"
definition bB :: "string list bootstrapper" where "bB = fake_bootstrapper ''B'' False"
definition bC :: "string list bootstrapper" where "bC = fake_bootstrapper ''C'' False"
definition bD :: "string list bootstrapper" where "bD = fake_bootstrapper ''D'' False"
definition bC_failing :: "string list bootstrapper" where "bC_failing = fake_bootstrapper ''C'' True"
definition bB_stuck :: "string list bootstrapper" where "bB_stuck = failing_revert_bootstrapper ''B''"
definition bF :: "string list bootstrapper" where "bF = flaky_bootstrapper ''F'' 2"
definition bC_cancelled :: "string list bootstrapper" where
  "bC_cancelled = cancelled_bootstrapper ''C''"
definition bB_cancelled_revert :: "string list bootstrapper" where
  "bB_cancelled_revert = cancelled_revert_bootstrapper ''B''"

text \<open>\<open>make_tenant\<close> of \<open>tests/helpers.py\<close> and the tenants of \<open>TestRun\<close>.\<close>

definition make_tenant :: tenant where
  "make_tenant = \<lparr>tenant_id = ''tenant-1'', tenant_name = ''Acme Corp'', slug = ''acme''\<rparr>"

definition tenant_a :: tenant where
  "tenant_a = \<lparr>tenant_id = ''tenant-a'', tenant_name = ''Tenant A'', slug = ''acme''\<rparr>"

definition tenant_b :: tenant where
  "tenant_b = \<lparr>tenant_id = ''tenant-b'', tenant_name = ''Tenant B'', slug = ''acme''\<rparr>"

definition callback_returning_name :: "tenant \<Rightarrow> string list \<Rightarrow> (exn + string) \<times> string list" where
  "callback_returning_name t log = (Inr (tenant_name t), log @ [''callback''])"

definition callback_that_throws :: "tenant \<Rightarrow> string list \<Rightarrow> (exn + string) \<times> string list" where
  "callback_that_throws t log = (Inl (RuntimeError ''callback boom''), log @ [''callback''])"

definition central_work :: "tenant option \<Rightarrow> string list \<Rightarrow> (exn + unit) \<times> string list" where
  "central_work prev log = (Inr (), log @ [''central-work''])"

definition central_boom :: "tenant option \<Rightarrow> string list \<Rightarrow> (exn + unit) \<times> string list" where
  "central_boom prev log = (Inl (RuntimeError ''central boom''), log @ [''central-work''])"

text \<open>
  Contexts made Active from a fresh one: for \<open>tenant_a\<close> with one well-behaved
  bootstrapper, for \<open>tenant_a\<close> with the flaky one, and for the default
  tenant with a bootstrapper in the middle of the stack whose \<open>revert\<close> raises.
\<close>

definition active_1 :: "string list tenancy_context" where
  "active_1 = snd (initialize tenant_a (new_context [bA] []))"

definition active_a :: "string list tenancy_context" where
  "active_a = snd (initialize tenant_a (new_context [bF] []))"

definition active_stuck :: "string list tenancy_context" where
  "active_stuck = snd (initialize make_tenant (new_context [bA, bB_stuck, bC] []))"

text \<open>
  \<open>MockGateway\<close> of \<open>tests/test_provisioner.py\<close>. The new hash is
  \<open>f"hash-{len(self.patch_config_calls)}"\<close>.
\<close>

record mock_gateway =
  mock_config :: dict
  mock_hash :: string
  patch_config_calls :: "(dict \<times> string) list"
  fail_patch :: bool

fun str_nat :: "nat \<Rightarrow> string" where
  "str_nat n =
     (if n < 10 then [char_of (48 + n)]
      else str_nat (n div 10) @ [char_of (48 + n mod 10)])"

definition mock_get_config :: "mock_gateway \<Rightarrow> (exn + snapshot) \<times> mock_gateway" where
  "mock_get_config g = (Inr \<lparr>config = mock_config g, hash = mock_hash g\<rparr>, g)"

definition mock_patch_config :: "dict \<Rightarrow> string \<Rightarrow> mock_gateway \<Rightarrow> exn option \<times> mock_gateway" where
  "mock_patch_config patch base_hash g =
     (if fail_patch g then (Some (RuntimeError ''config write failed''), g)
      else if base_hash \<noteq> mock_hash g then (Some (ValueError ''Config hash mismatch''), g)
      else
        (let calls' = patch_config_calls g @ [(patch, base_hash)];
             config' = (case map_of patch ''agents'' of
                          Some v \<Rightarrow> AList.update ''agents'' v (mock_config g)
                        | None \<Rightarrow> mock_config g)
         in (None,
             g\<lparr>patch_config_calls := calls', mock_config := config',
               mock_hash := ''hash-'' @ str_nat (length calls')\<rparr>)))"

definition mock :: "mock_gateway gateway" where
  "mock = \<lparr>get_config = mock_get_config, patch_config = mock_patch_config\<rparr>"

definition mock_with :: "json list \<Rightarrow> mock_gateway remote" where
  "mock_with entries =
     \<lparr>gw_state = \<lparr>mock_config = [(''agents'', JObj [(''list'', JList entries)])],
                   mock_hash = ''hash-1'', patch_config_calls = [], fail_patch = False\<rparr>,
      rpcs = []\<rparr>"

definition acme_entry :: json where
  "acme_entry = JObj [(''id'', JStr ''tenant-acme''), (''name'', JStr ''Acme Corp'')]"

definition acme_agent :: agent_config where
  "acme_agent =
     \<lparr>agent_id = ''tenant-acme'', agent_name = Some ''Acme Corp'',
      workspace = Some ''/data/tenants/tenant-acme'', model = Some (JStr ''azure/gpt-4o''),
      skills = None,
      sandbox = Some [(''mode'', JStr ''all''), (''workspaceAccess'', JStr ''rw'')],
      identity = None\<rparr>"

text \<open>
  A client with two requests outstanding, and a response to the first of them.
\<close>

definition two_pending :: gateway_client where
  "two_pending =
     snd (request_begin ''config.patch'' (JObj [])
            (snd (request_begin ''config.get'' (JObj []) new_client)))"

definition late_response :: dict where
  "late_response = [(''id'', JInt 1), (''result'', JObj [(''hash'', JStr ''h1'')])]"

section \<open>Notions used to state the properties\<close>

text \<open>
  The world after the \<open>bootstrap\<close> methods of a list of bootstrappers have been
  called in turn and every one has returned normally; \<open>None\<close> if one raises.
\<close>

fun bootstrap_all :: "tenant \<Rightarrow> 'w bootstrapper list \<Rightarrow> 'w \<Rightarrow> 'w option" where
  "bootstrap_all t [] w = Some w"
| "bootstrap_all t (b # bs) w =
     (case bootstrap b t w of
        (None, w') \<Rightarrow> bootstrap_all t bs w'
      | (Some e, w') \<Rightarrow> None)"

text \<open>
  The \<open>revert\<close> methods of a list of bootstrappers called in turn, in the order
  of the list, each on the world the one before left, whether it returned or
  raised an \<open>Exception\<close>: the name and exception of each one that raised, in
  order, and the world after the last. \<open>None\<close> if one of them raises something
  that is no \<open>Exception\<close>.
\<close>

fun revert_all :: "'w bootstrapper list \<Rightarrow> 'w \<Rightarrow> ((string \<times> exn) list \<times> 'w) option" where
  "revert_all [] w = Some ([], w)"
| "revert_all (b # bs) w =
     (case revert b w of
        (None, w') \<Rightarrow> revert_all bs w'
      | (Some e, w') \<Rightarrow>
          if is_exception e then
            (case revert_all bs w' of
               None \<Rightarrow> None
             | Some (failures, w'') \<Rightarrow> Some ((name b, e) # failures, w''))
          else None)"

text \<open>
  A bootstrapper none of whose methods ever raises anything but an \<open>Exception\<close>.
\<close>

definition raises_exceptions_only :: "'w bootstrapper \<Rightarrow> bool" where
  "raises_exceptions_only b =
     ((\<forall>t w e w'. bootstrap b t w = (Some e, w') \<longrightarrow> is_exception e) \<and>
      (\<forall>w e w'. revert b w = (Some e, w') \<longrightarrow> is_exception e))"

text \<open>
  The invariant of the context state: \<open>initialized\<close> holds exactly when a tenant
  is set; the stack is always a prefix of the configured sequence, and the whole
  of it when \<open>initialized\<close> holds.
\<close>

definition ctx_inv :: "'w tenancy_context \<Rightarrow> bool" where
  "ctx_inv s =
     (initialized s = (tenant s \<noteq> None) \<and>
      prefix (initialized_bootstrappers s) (bootstrappers s) \<and>
      (initialized s \<longrightarrow> initialized_bootstrappers s = bootstrappers s))"

text \<open>
  The state in which the \<open>finally\<close> block of \<open>run\<close> starts once \<open>initialize\<close>
  has succeeded and the callback has returned or raised.
\<close>

definition after_callback ::
  "tenant \<Rightarrow> (tenant \<Rightarrow> 'w \<Rightarrow> (exn + 'r) \<times> 'w) \<Rightarrow> 'w tenancy_context \<Rightarrow> 'w tenancy_context" where
  "after_callback t callback s =
     (snd (initialize t s))\<lparr>world := snd (callback t (world (snd (initialize t s))))\<rparr>"

text \<open>An entry of the registry list that is a \<open>dict\<close>, and the id it carries.\<close>

definition is_obj :: "json \<Rightarrow> bool" where
  "is_obj v = (case v of JObj d \<Rightarrow> True | _ \<Rightarrow> False)"

definition has_id :: "string \<Rightarrow> json \<Rightarrow> bool" where
  "has_id i v = (case v of JObj d \<Rightarrow> map_of d ''id'' = Some (JStr i) | _ \<Rightarrow> False)"

section \<open>Properties of the revert loop\<close>

text \<open>When no \<open>revert\<close> escapes, the loop is \<open>revert_all\<close> on the world.\<close>

lemma revert_loop_all:
  "revert_all bs (world s) = Some (l, w') \<Longrightarrow>
     revert_loop bs s
       = (None, s\<lparr>world := w', calls := calls s @ map Revert bs, logged := logged s @ l\<rparr>)"
proof (induction bs arbitrary: s l)
  case Nil
  then show ?case by simp
next
  case (Cons b bs)
  obtain r w1 where step: "revert b (world s) = (r, w1)"
    by (cases "revert b (world s)")
  show ?case
  proof (cases r)
    case None
    let ?s1 = "s\<lparr>world := w1, calls := calls s @ [Revert b]\<rparr>"
    from Cons.prems step None have "revert_all bs (world ?s1) = Some (l, w')" by simp
    from Cons.IH [OF this] step None show ?thesis by simp
  next
    case (Some e)
    let ?s1 = "s\<lparr>world := w1, calls := calls s @ [Revert b],
                  logged := logged s @ [(name b, e)]\<rparr>"
    from Cons.prems step Some have ex: "is_exception e"
      by (auto split: if_splits)
    from Cons.prems step Some ex obtain l' where
      rest: "revert_all bs w1 = Some (l', w')" and l: "l = (name b, e) # l'"
      by (auto split: option.splits)
    from rest have "revert_all bs (world ?s1) = Some (l', w')" by simp
    from Cons.IH [OF this] step Some ex l show ?thesis by simp
  qed
qed

text \<open>Whatever happens, the loop touches the world, the call log and the logger only.\<close>

lemma revert_loop_fields:
  "bootstrappers (snd (revert_loop bs s)) = bootstrappers s \<and>
   tenant (snd (revert_loop bs s)) = tenant s \<and>
   initialized (snd (revert_loop bs s)) = initialized s \<and>
   initialized_bootstrappers (snd (revert_loop bs s)) = initialized_bootstrappers s"
proof (induction bs arbitrary: s)
  case Nil
  then show ?case by simp
next
  case (Cons b bs)
  obtain r w1 where step: "revert b (world s) = (r, w1)"
    by (cases "revert b (world s)")
  show ?case
  proof (cases r)
    case None
    with step Cons.IH [of "s\<lparr>world := w1, calls := calls s @ [Revert b]\<rparr>"]
    show ?thesis by simp
  next
    case (Some e)
    with step Cons.IH [of "s\<lparr>world := w1, calls := calls s @ [Revert b],
                            logged := logged s @ [(name b, e)]\<rparr>"]
    show ?thesis by simp
  qed
qed

text \<open>What escapes the loop is no \<open>Exception\<close>.\<close>

lemma revert_loop_raise: "revert_loop bs s = (Some e, s') \<Longrightarrow> \<not> is_exception e"
proof (induction bs arbitrary: s)
  case Nil
  then show ?case by simp
next
  case (Cons b bs)
  obtain r w1 where step: "revert b (world s) = (r, w1)"
    by (cases "revert b (world s)")
  show ?case
  proof (cases r)
    case None
    with step Cons.prems Cons.IH [of "s\<lparr>world := w1, calls := calls s @ [Revert b]\<rparr>"]
    show ?thesis by simp
  next
    case (Some e1)
    with step Cons.prems
      Cons.IH [of "s\<lparr>world := w1, calls := calls s @ [Revert b],
                     logged := logged s @ [(name b, e1)]\<rparr>"]
    show ?thesis by (auto split: if_splits)
  qed
qed

lemma revert_loop_good:
  "list_all raises_exceptions_only bs \<Longrightarrow> fst (revert_loop bs s) = None"
proof (induction bs arbitrary: s)
  case Nil
  then show ?case by simp
next
  case (Cons b bs)
  then have gb: "raises_exceptions_only b" and rest: "list_all raises_exceptions_only bs"
    by simp_all
  obtain r w1 where step: "revert b (world s) = (r, w1)"
    by (cases "revert b (world s)")
  show ?case
  proof (cases r)
    case None
    with step Cons.IH [OF rest, of "s\<lparr>world := w1, calls := calls s @ [Revert b]\<rparr>"]
    show ?thesis by simp
  next
    case (Some e)
    with step gb have "is_exception e"
      unfolding raises_exceptions_only_def by blast
    with Some step
      Cons.IH [OF rest, of "s\<lparr>world := w1, calls := calls s @ [Revert b],
                              logged := logged s @ [(name b, e)]\<rparr>"]
    show ?thesis by simp
  qed
qed

lemma revert_initialized_fields:
  "bootstrappers (snd (revert_initialized s)) = bootstrappers s"
  "tenant (snd (revert_initialized s)) = tenant s"
  "initialized (snd (revert_initialized s)) = initialized s"
  "initialized_bootstrappers (snd (revert_initialized s)) = initialized_bootstrappers s"
  using revert_loop_fields [of "rev (initialized_bootstrappers s)" s]
  by (simp_all add: revert_initialized_def)

section \<open>Properties of \<open>end\<close>\<close>

lemma end_tenancy_all:
  assumes "initialized s"
    and "revert_all (rev (initialized_bootstrappers s)) (world s) = Some (l, w')"
  shows "end_tenancy s
           = (None, s\<lparr>world := w', calls := calls s @ map Revert (rev (initialized_bootstrappers s)),
                      logged := logged s @ l, tenant := None, initialized := False,
                      initialized_bootstrappers := []\<rparr>)"
  using assms revert_loop_all [OF assms(2)]
  by (simp add: end_tenancy_def revert_initialized_def)

lemma end_tenancy_raise: "end_tenancy s = (Some e, s') \<Longrightarrow> \<not> is_exception e"
  by (auto simp: end_tenancy_def revert_initialized_def split: if_splits prod.splits option.splits
      dest: revert_loop_raise)

lemma end_tenancy_ok:
  assumes "end_tenancy s = (None, s')"
  shows "\<not> initialized s'" and "bootstrappers s' = bootstrappers s"
    and "initialized s \<Longrightarrow> tenant s' = None \<and> initialized_bootstrappers s' = []"
    and "\<not> initialized s \<Longrightarrow> s' = s"
proof -
  obtain x s1 where r: "revert_initialized s = (x, s1)"
    by (cases "revert_initialized s")
  from revert_initialized_fields(1) [of s] r have b: "bootstrappers s1 = bootstrappers s"
    by simp
  from assms r b show "\<not> initialized s'" and "bootstrappers s' = bootstrappers s"
    and "initialized s \<Longrightarrow> tenant s' = None \<and> initialized_bootstrappers s' = []"
    and "\<not> initialized s \<Longrightarrow> s' = s"
    by (auto simp: end_tenancy_def split: if_splits option.splits)
qed

lemma end_tenancy_good:
  "list_all raises_exceptions_only (initialized_bootstrappers s) \<Longrightarrow> fst (end_tenancy s) = None"
  using revert_loop_good [of "rev (initialized_bootstrappers s)" s]
  by (auto simp: end_tenancy_def revert_initialized_def split: prod.splits option.splits)

section \<open>Properties of the bootstrap loop\<close>

text \<open>When every \<open>bootstrap\<close> returns, the loop is \<open>bootstrap_all\<close> on the world.\<close>

lemma bootstrap_loop_all:
  "bootstrap_all t bs (world s) = Some w' \<Longrightarrow>
     bootstrap_loop t bs s
       = (None, s\<lparr>world := w', calls := calls s @ map (\<lambda>b. Bootstrap b t) bs,
                  initialized_bootstrappers := initialized_bootstrappers s @ bs\<rparr>)"
proof (induction bs arbitrary: s)
  case Nil
  then show ?case by simp
next
  case (Cons b bs)
  obtain r w1 where step: "bootstrap b t (world s) = (r, w1)"
    by (cases "bootstrap b t (world s)")
  with Cons.prems have r: "r = None" and rest: "bootstrap_all t bs w1 = Some w'"
    by (auto split: option.splits)
  let ?s1 = "s\<lparr>world := w1, calls := calls s @ [Bootstrap b t],
                initialized_bootstrappers := initialized_bootstrappers s @ [b]\<rparr>"
  from rest have "bootstrap_all t bs (world ?s1) = Some w'" by simp
  from Cons.IH [OF this] step r show ?case by simp
qed

lemma bootstrap_loop_ok:
  "bootstrap_loop t bs s = (None, s') \<Longrightarrow>
     calls s' = calls s @ map (\<lambda>b. Bootstrap b t) bs \<and>
     initialized_bootstrappers s' = initialized_bootstrappers s @ bs \<and>
     bootstrappers s' = bootstrappers s \<and> tenant s' = tenant s \<and>
     initialized s' = initialized s \<and>
     bootstrap_all t bs (world s) = Some (world s')"
proof (induction bs arbitrary: s)
  case Nil
  then show ?case by simp
next
  case (Cons b bs)
  obtain r w1 where step: "bootstrap b t (world s) = (r, w1)"
    by (cases "bootstrap b t (world s)")
  show ?case
  proof (cases r)
    case None
    let ?s1 = "s\<lparr>world := w1, calls := calls s @ [Bootstrap b t],
                  initialized_bootstrappers := initialized_bootstrappers s @ [b]\<rparr>"
    from Cons.prems step None have "bootstrap_loop t bs ?s1 = (None, s')"
      by simp
    from Cons.IH [OF this] step None show ?thesis
      by simp
  next
    case (Some e)
    with Cons.prems step show ?thesis
      by (auto split: if_splits prod.splits option.splits)
  qed
qed

text \<open>
  The loop when the bootstrapper after \<open>pre\<close> raises an \<open>Exception\<close> and no
  \<open>revert\<close> of the rollback escapes.
\<close>

lemma bootstrap_loop_fail:
  "bootstrap_all t pre (world s) = Some w1 \<Longrightarrow> bootstrap b t w1 = (Some e, w2) \<Longrightarrow>
   is_exception e \<Longrightarrow>
   revert_all (rev (initialized_bootstrappers s @ pre)) w2 = Some (l, w3) \<Longrightarrow>
   bootstrap_loop t (pre @ b # post) s
     = (Some e,
        s\<lparr>world := w3,
          calls := calls s @ map (\<lambda>b. Bootstrap b t) (pre @ [b])
                     @ map Revert (rev (initialized_bootstrappers s @ pre)),
          initialized_bootstrappers := initialized_bootstrappers s @ pre,
          logged := logged s @ l, tenant := None, initialized := False\<rparr>)"
proof (induction pre arbitrary: s)
  case Nil
  let ?s1 = "s\<lparr>world := w2, calls := calls s @ [Bootstrap b t]\<rparr>"
  from Nil have "revert_all (rev (initialized_bootstrappers ?s1)) (world ?s1) = Some (l, w3)"
    by simp
  from revert_loop_all [OF this] Nil show ?case
    by (simp add: revert_initialized_def)
next
  case (Cons a pre)
  obtain r w' where step: "bootstrap a t (world s) = (r, w')"
    by (cases "bootstrap a t (world s)")
  with Cons.prems(1) have r: "r = None" and rest: "bootstrap_all t pre w' = Some w1"
    by (auto split: option.splits)
  let ?s1 = "s\<lparr>world := w', calls := calls s @ [Bootstrap a t],
                initialized_bootstrappers := initialized_bootstrappers s @ [a]\<rparr>"
  from rest have all: "bootstrap_all t pre (world ?s1) = Some w1" by simp
  from Cons.prems(4)
  have rv: "revert_all (rev (initialized_bootstrappers ?s1 @ pre)) w2 = Some (l, w3)"
    by simp
  from Cons.IH [OF all Cons.prems(2,3) rv] step r show ?case
    by simp
qed

text \<open>
  Whatever the loop raises, the configuration is untouched; if it is an
  \<open>Exception\<close>, the rollback is complete: no tenant, not initialized, and the
  stack grown by a prefix of the list.
\<close>

lemma bootstrap_loop_raise:
  "bootstrap_loop t bs s = (Some e, s') \<Longrightarrow>
     bootstrappers s' = bootstrappers s \<and>
     (is_exception e \<longrightarrow>
        tenant s' = None \<and> \<not> initialized s' \<and>
        (\<exists>pre. prefix pre bs \<and> initialized_bootstrappers s' = initialized_bootstrappers s @ pre))"
proof (induction bs arbitrary: s)
  case Nil
  then show ?case by simp
next
  case (Cons b bs)
  obtain r w1 where step: "bootstrap b t (world s) = (r, w1)"
    by (cases "bootstrap b t (world s)")
  show ?case
  proof (cases r)
    case None
    let ?s1 = "s\<lparr>world := w1, calls := calls s @ [Bootstrap b t],
                  initialized_bootstrappers := initialized_bootstrappers s @ [b]\<rparr>"
    from Cons.prems step None have "bootstrap_loop t bs ?s1 = (Some e, s')"
      by simp
    from Cons.IH [OF this]
    have bs: "bootstrappers s' = bootstrappers s"
      and ex: "is_exception e \<longrightarrow>
        tenant s' = None \<and> \<not> initialized s' \<and>
        (\<exists>pre. prefix pre bs \<and>
           initialized_bootstrappers s' = (initialized_bootstrappers s @ [b]) @ pre)"
      by simp_all
    have "\<exists>pre'. prefix pre' (b # bs) \<and> initialized_bootstrappers s' = initialized_bootstrappers s @ pre'"
      if "is_exception e"
    proof -
      from ex that obtain pre where "prefix pre bs"
        and "initialized_bootstrappers s' = (initialized_bootstrappers s @ [b]) @ pre"
        by blast
      then have "prefix (b # pre) (b # bs) \<and>
          initialized_bootstrappers s' = initialized_bootstrappers s @ (b # pre)"
        by simp
      then show ?thesis ..
    qed
    with bs ex show ?thesis by blast
  next
    case (Some e1)
    let ?s1 = "s\<lparr>world := w1, calls := calls s @ [Bootstrap b t]\<rparr>"
    show ?thesis
    proof (cases "is_exception e1")
      case False
      with Cons.prems step Some show ?thesis by auto
    next
      case True
      obtain x s2 where rv: "revert_initialized ?s1 = (x, s2)"
        by (cases "revert_initialized ?s1")
      from revert_initialized_fields [of ?s1] rv
      have f: "bootstrappers s2 = bootstrappers s" "tenant s2 = tenant s"
        "initialized s2 = initialized s"
        "initialized_bootstrappers s2 = initialized_bootstrappers s"
        by simp_all
      show ?thesis
      proof (cases x)
        case None
        with Cons.prems step Some True rv have "e = e1"
          and "s' = s2\<lparr>tenant := None, initialized := False\<rparr>"
          by simp_all
        with f have "bootstrappers s' = bootstrappers s \<and> tenant s' = None \<and>
            \<not> initialized s' \<and> prefix [] (b # bs) \<and>
            initialized_bootstrappers s' = initialized_bootstrappers s @ []"
          by simp
        then show ?thesis by blast
      next
        case (Some e2)
        with Cons.prems step \<open>r = Some e1\<close> True rv have "e = e2" and "s' = s2"
          by simp_all
        moreover from rv Some have "\<not> is_exception e2"
          by (simp add: revert_initialized_def revert_loop_raise)
        ultimately show ?thesis using f by simp
      qed
    qed
  qed
qed

text \<open>With well-behaved bootstrappers the loop raises nothing but an \<open>Exception\<close>.\<close>

lemma bootstrap_loop_good:
  "list_all raises_exceptions_only bs \<Longrightarrow>
   list_all raises_exceptions_only (initialized_bootstrappers s) \<Longrightarrow>
   bootstrap_loop t bs s = (Some e, s') \<Longrightarrow> is_exception e"
proof (induction bs arbitrary: s)
  case Nil
  then show ?case by simp
next
  case (Cons b bs)
  then have gb: "raises_exceptions_only b" and rest: "list_all raises_exceptions_only bs"
    by simp_all
  obtain r w1 where step: "bootstrap b t (world s) = (r, w1)"
    by (cases "bootstrap b t (world s)")
  show ?case
  proof (cases r)
    case None
    let ?s1 = "s\<lparr>world := w1, calls := calls s @ [Bootstrap b t],
                  initialized_bootstrappers := initialized_bootstrappers s @ [b]\<rparr>"
    from Cons.prems(2) gb have st: "list_all raises_exceptions_only (initialized_bootstrappers ?s1)"
      by simp
    from Cons.prems(3) step None have "bootstrap_loop t bs ?s1 = (Some e, s')"
      by simp
    from Cons.IH [OF rest st this] show ?thesis .
  next
    case (Some e1)
    let ?s1 = "s\<lparr>world := w1, calls := calls s @ [Bootstrap b t]\<rparr>"
    from step Some gb have ex: "is_exception e1"
      unfolding raises_exceptions_only_def by blast
    from Cons.prems(2) revert_loop_good [of "rev (initialized_bootstrappers ?s1)" ?s1]
    have "fst (revert_initialized ?s1) = None"
      by (simp add: revert_initialized_def)
    then obtain s2 where "revert_initialized ?s1 = (None, s2)"
      by (cases "revert_initialized ?s1") simp
    with Cons.prems(3) step Some ex show ?thesis by simp
  qed
qed

section \<open>Properties of \<open>initialize\<close>\<close>

lemma initialize_noop: "same_tenant s t \<Longrightarrow> initialize t s = (None, s)"
  by (simp add: initialize_def)

lemma initialize_fresh_all:
  assumes "\<not> initialized s" and "bootstrap_all t (bootstrappers s) (world s) = Some w"
  shows "initialize t s
           = (None, s\<lparr>tenant := Some t, initialized_bootstrappers := bootstrappers s,
                      world := w,
                      calls := calls s @ map (\<lambda>b. Bootstrap b t) (bootstrappers s),
                      initialized := True\<rparr>)"
proof -
  let ?s2 = "s\<lparr>tenant := Some t, initialized_bootstrappers := []\<rparr>"
  from assms(2) have "bootstrap_all t (bootstrappers ?s2) (world ?s2) = Some w" by simp
  from bootstrap_loop_all [OF this] assms(1) show ?thesis
    by (simp add: initialize_def same_tenant_def)
qed

lemma initialize_raises:
  assumes "\<not> initialized s"
    and "bootstrappers s = pre @ b # post"
    and "bootstrap_all t pre (world s) = Some w1"
    and "bootstrap b t w1 = (Some e, w2)"
    and "is_exception e"
    and "revert_all (rev pre) w2 = Some (l, w3)"
  shows "initialize t s
           = (Some e,
              s\<lparr>tenant := None, initialized := False, initialized_bootstrappers := pre,
                world := w3,
                calls := calls s @ map (\<lambda>b. Bootstrap b t) (pre @ [b]) @ map Revert (rev pre),
                logged := logged s @ l\<rparr>)"
proof -
  let ?s2 = "s\<lparr>tenant := Some t, initialized_bootstrappers := []\<rparr>"
  from assms(3) have a: "bootstrap_all t pre (world ?s2) = Some w1" by simp
  from assms(6) have r: "revert_all (rev (initialized_bootstrappers ?s2 @ pre)) w2 = Some (l, w3)"
    by simp
  from bootstrap_loop_fail [OF a assms(4,5) r, of post] assms(1,2) show ?thesis
    by (simp add: initialize_def same_tenant_def)
qed

text \<open>What a returning \<open>initialize\<close> leaves.\<close>

lemma initialize_ok_state:
  assumes "initialize t s = (None, s1)"
  shows "initialized s1" and "bootstrappers s1 = bootstrappers s"
    and "same_tenant s t \<Longrightarrow> s1 = s"
    and "\<not> same_tenant s t \<Longrightarrow>
           tenant s1 = Some t \<and> initialized_bootstrappers s1 = bootstrappers s"
proof -
  have same: "s1 = s" if "same_tenant s t"
    using assms that by (simp add: initialize_noop)
  have diff: "initialized s1 \<and> bootstrappers s1 = bootstrappers s \<and>
      tenant s1 = Some t \<and> initialized_bootstrappers s1 = bootstrappers s"
    if ns: "\<not> same_tenant s t"
  proof -
    obtain x s0 where e: "(if initialized s then end_tenancy s else (None, s)) = (x, s0)"
      by (cases "if initialized s then end_tenancy s else (None, s)")
    from e ns assms have x: "x = None"
      by (cases x) (simp_all add: initialize_def)
    have b0: "bootstrappers s0 = bootstrappers s"
    proof (cases "initialized s")
      case True
      with e x have "end_tenancy s = (None, s0)" by simp
      from end_tenancy_ok(2) [OF this] show ?thesis .
    next
      case False
      with e show ?thesis by simp
    qed
    let ?s2 = "s0\<lparr>tenant := Some t, initialized_bootstrappers := []\<rparr>"
    obtain y s3 where loop: "bootstrap_loop t (bootstrappers ?s2) ?s2 = (y, s3)"
      by (cases "bootstrap_loop t (bootstrappers ?s2) ?s2")
    from e x ns assms loop have y: "y = None" and s1: "s1 = s3\<lparr>initialized := True\<rparr>"
      by (cases y; simp add: initialize_def Let_def)+
    from loop y have "bootstrap_loop t (bootstrappers ?s2) ?s2 = (None, s3)" by simp
    from bootstrap_loop_ok [OF this] s1 b0 show ?thesis by simp
  qed
  from same diff show "initialized s1" and "bootstrappers s1 = bootstrappers s"
    and "same_tenant s t \<Longrightarrow> s1 = s"
    and "\<not> same_tenant s t \<Longrightarrow>
           tenant s1 = Some t \<and> initialized_bootstrappers s1 = bootstrappers s"
    by (auto simp: same_tenant_def)
qed

text \<open>
  What \<open>initialize\<close> leaves when it raises an \<open>Exception\<close>: that of a
  \<open>bootstrap\<close>, after a complete rollback.
\<close>

lemma initialize_raise_state:
  assumes "initialize t s = (Some e, s1)" and "is_exception e"
  shows "tenant s1 = None \<and> \<not> initialized s1 \<and> bootstrappers s1 = bootstrappers s \<and>
         prefix (initialized_bootstrappers s1) (bootstrappers s)"
proof -
  from assms(1) have ns: "\<not> same_tenant s t"
    by (auto simp: initialize_noop)
  obtain x s0 where e: "(if initialized s then end_tenancy s else (None, s)) = (x, s0)"
    by (cases "if initialized s then end_tenancy s else (None, s)")
  have x: "x = None"
  proof (cases x)
    case None
    then show ?thesis .
  next
    case (Some e0)
    with e ns assms(1) have "e = e0" and "end_tenancy s = (Some e0, s0)"
      by (auto simp: initialize_def split: if_splits)
    with end_tenancy_raise assms(2) show ?thesis by blast
  qed
  have b0: "bootstrappers s0 = bootstrappers s"
  proof (cases "initialized s")
    case True
    with e x have "end_tenancy s = (None, s0)" by simp
    from end_tenancy_ok(2) [OF this] show ?thesis .
  next
    case False
    with e show ?thesis by simp
  qed
  let ?s2 = "s0\<lparr>tenant := Some t, initialized_bootstrappers := []\<rparr>"
  obtain y s3 where loop: "bootstrap_loop t (bootstrappers ?s2) ?s2 = (y, s3)"
    by (cases "bootstrap_loop t (bootstrappers ?s2) ?s2")
  from e x ns assms(1) loop have "y = Some e" and "s1 = s3"
    by (cases y; simp add: initialize_def Let_def)+
  with loop have "bootstrap_loop t (bootstrappers ?s2) ?s2 = (Some e, s1)" by simp
  from bootstrap_loop_raise [OF this] assms(2) b0 show ?thesis by auto
qed

text \<open>With well-behaved bootstrappers, \<open>initialize\<close> raises nothing but an \<open>Exception\<close>.\<close>

lemma initialize_good:
  assumes "list_all raises_exceptions_only (bootstrappers s)"
    and "list_all raises_exceptions_only (initialized_bootstrappers s)"
    and "initialize t s = (Some e, s1)"
  shows "is_exception e"
proof -
  from assms(3) have ns: "\<not> same_tenant s t"
    by (auto simp: initialize_noop)
  obtain x s0 where e: "(if initialized s then end_tenancy s else (None, s)) = (x, s0)"
    by (cases "if initialized s then end_tenancy s else (None, s)")
  from end_tenancy_good [OF assms(2)] e have x: "x = None"
    by (auto split: if_splits)
  have b0: "bootstrappers s0 = bootstrappers s"
  proof (cases "initialized s")
    case True
    with e x have "end_tenancy s = (None, s0)" by simp
    from end_tenancy_ok(2) [OF this] show ?thesis .
  next
    case False
    with e show ?thesis by simp
  qed
  let ?s2 = "s0\<lparr>tenant := Some t, initialized_bootstrappers := []\<rparr>"
  obtain y s3 where loop: "bootstrap_loop t (bootstrappers ?s2) ?s2 = (y, s3)"
    by (cases "bootstrap_loop t (bootstrappers ?s2) ?s2")
  from e x ns assms(3) loop have "y = Some e"
    by (cases y; simp add: initialize_def Let_def)
  with loop have l: "bootstrap_loop t (bootstrappers ?s2) ?s2 = (Some e, s3)" by simp
  from assms(1) b0 have g: "list_all raises_exceptions_only (bootstrappers ?s2)" by simp
  have g0: "list_all raises_exceptions_only (initialized_bootstrappers ?s2)" by simp
  from bootstrap_loop_good [OF g g0 l] show ?thesis .
qed

section \<open>The invariant is kept by every operation\<close>

lemma list_all_prefix: "prefix xs ys \<Longrightarrow> list_all P ys \<Longrightarrow> list_all P xs"
  by (auto simp: prefix_def)

lemma ctx_inv_world [simp]: "ctx_inv (s\<lparr>world := w\<rparr>) = ctx_inv s"
  by (simp add: ctx_inv_def)

lemma ctx_inv_stack:
  "ctx_inv s \<Longrightarrow> list_all raises_exceptions_only (bootstrappers s) \<Longrightarrow>
     list_all raises_exceptions_only (initialized_bootstrappers s)"
  by (auto simp: ctx_inv_def intro: list_all_prefix)

lemma initialize_inv:
  assumes "ctx_inv s" and "list_all raises_exceptions_only (bootstrappers s)"
  shows "ctx_inv (snd (initialize t s)) \<and> bootstrappers (snd (initialize t s)) = bootstrappers s"
proof -
  obtain x s1 where ini: "initialize t s = (x, s1)" by (cases "initialize t s")
  show ?thesis
  proof (cases x)
    case None
    with ini have ok: "initialize t s = (None, s1)" by simp
    show ?thesis
    proof (cases "same_tenant s t")
      case True
      with initialize_ok_state(3) [OF ok] assms(1) ini show ?thesis by simp
    next
      case False
      from initialize_ok_state(1,2) [OF ok] initialize_ok_state(4) [OF ok False] ini
      show ?thesis by (simp add: ctx_inv_def)
    qed
  next
    case (Some e)
    with ini have bad: "initialize t s = (Some e, s1)" by simp
    from initialize_good [OF assms(2) ctx_inv_stack [OF assms] bad] have "is_exception e" .
    from initialize_raise_state [OF bad this] ini show ?thesis
      by (simp add: ctx_inv_def)
  qed
qed

lemma end_tenancy_inv:
  assumes "ctx_inv s" and "list_all raises_exceptions_only (bootstrappers s)"
  shows "ctx_inv (snd (end_tenancy s)) \<and> bootstrappers (snd (end_tenancy s)) = bootstrappers s"
proof -
  from end_tenancy_good [OF ctx_inv_stack [OF assms]] obtain s1
    where e: "end_tenancy s = (None, s1)"
    by (cases "end_tenancy s") simp
  show ?thesis
  proof (cases "initialized s")
    case True
    from end_tenancy_ok(1,2) [OF e] end_tenancy_ok(3) [OF e True] e show ?thesis
      by (simp add: ctx_inv_def)
  next
    case False
    from end_tenancy_ok(4) [OF e False] assms(1) e show ?thesis by simp
  qed
qed

lemma restore_inv:
  assumes "ctx_inv s" and "list_all raises_exceptions_only (bootstrappers s)"
  shows "ctx_inv (snd (restore p s)) \<and> bootstrappers (snd (restore p s)) = bootstrappers s"
  using initialize_inv [OF assms] end_tenancy_inv [OF assms]
  by (cases p) (simp_all add: restore_def)

lemma run_inv:
  assumes "ctx_inv s" and "list_all raises_exceptions_only (bootstrappers s)"
  shows "ctx_inv (snd (run t callback s))"
proof -
  obtain x s1 where ini: "initialize t s = (x, s1)" by (cases "initialize t s")
  with initialize_inv [OF assms, of t]
  have inv1: "ctx_inv s1" and bs1: "list_all raises_exceptions_only (bootstrappers s1)"
    using assms(2) by simp_all
  obtain r w where cb: "callback t (world s1) = (r, w)" by (cases "callback t (world s1)")
  show ?thesis
  proof (cases x)
    case None
    obtain y s3 where rs: "restore (tenant s) (s1\<lparr>world := w\<rparr>) = (y, s3)"
      by (cases "restore (tenant s) (s1\<lparr>world := w\<rparr>)")
    from inv1 bs1 restore_inv [of "s1\<lparr>world := w\<rparr>" "tenant s"] rs have "ctx_inv s3" by simp
    with ini None cb rs show ?thesis
      by (simp add: run_def split: option.splits)
  next
    case (Some e)
    obtain y s3 where rs: "restore (tenant s) s1 = (y, s3)"
      by (cases "restore (tenant s) s1")
    from inv1 bs1 restore_inv [of s1 "tenant s"] rs have "ctx_inv s3" by simp
    with ini Some rs show ?thesis
      by (simp add: run_def split: option.splits)
  qed
qed

lemma central_inv:
  assumes "ctx_inv s" and "list_all raises_exceptions_only (bootstrappers s)"
  shows "ctx_inv (snd (central callback s))"
proof -
  obtain x s1 where e: "end_tenancy s = (x, s1)" by (cases "end_tenancy s")
  with end_tenancy_inv [OF assms]
  have inv1: "ctx_inv s1" and bs1: "list_all raises_exceptions_only (bootstrappers s1)"
    using assms(2) by simp_all
  obtain r w where cb: "callback (tenant s) (world s1) = (r, w)"
    by (cases "callback (tenant s) (world s1)")
  from inv1 bs1 have g: "ctx_inv (s1\<lparr>world := w\<rparr>)"
    "list_all raises_exceptions_only (bootstrappers (s1\<lparr>world := w\<rparr>))" by simp_all
  have ini: "ctx_inv (snd (initialize p (s1\<lparr>world := w\<rparr>)))" for p
    using initialize_inv [OF g, of p] by simp
  show ?thesis
  proof (cases x)
    case (Some e0)
    with e inv1 show ?thesis by (simp add: central_def)
  next
    case None
    show ?thesis
    proof (cases r)
      case (Inl e1)
      with e None cb inv1 show ?thesis by (simp add: central_def)
    next
      case (Inr v)
      show ?thesis
      proof (cases "tenant s")
        case None
        with e \<open>x = None\<close> cb Inr inv1 show ?thesis by (simp add: central_def)
      next
        case (Some p)
        with e \<open>x = None\<close> cb Inr ini [of p] show ?thesis
          by (auto simp: central_def split: prod.splits option.splits)
      qed
    qed
  qed
qed

lemma multiple_loop_inv:
  "ctx_inv s \<Longrightarrow> list_all raises_exceptions_only (bootstrappers s) \<Longrightarrow>
     ctx_inv (snd (multiple_loop ts callback s)) \<and>
     bootstrappers (snd (multiple_loop ts callback s)) = bootstrappers s"
proof (induction ts arbitrary: s)
  case Nil
  then show ?case by simp
next
  case (Cons t ts)
  obtain x s1 where ini: "initialize t s = (x, s1)" by (cases "initialize t s")
  with initialize_inv [OF Cons.prems, of t]
  have inv1: "ctx_inv s1" and b1: "bootstrappers s1 = bootstrappers s" by simp_all
  obtain r w where cb: "callback t (world s1) = (r, w)" by (cases "callback t (world s1)")
  from inv1 b1 Cons.prems(2) have g: "ctx_inv (s1\<lparr>world := w\<rparr>)"
    "list_all raises_exceptions_only (bootstrappers (s1\<lparr>world := w\<rparr>))" by simp_all
  from Cons.IH [OF g] ini cb inv1 b1 show ?case
    by (simp split: option.splits sum.splits)
qed

lemma run_for_multiple_inv:
  assumes "ctx_inv s" and "list_all raises_exceptions_only (bootstrappers s)"
  shows "ctx_inv (snd (run_for_multiple ts callback s))"
proof -
  obtain x s1 where lp: "multiple_loop ts callback s = (x, s1)"
    by (cases "multiple_loop ts callback s")
  with multiple_loop_inv [OF assms, of ts callback]
  have inv1: "ctx_inv s1" and b1: "list_all raises_exceptions_only (bootstrappers s1)"
    using assms(2) by simp_all
  from restore_inv [OF inv1 b1, of "tenant s"] lp inv1 show ?thesis
    by (simp add: run_for_multiple_def split: option.splits)
qed

section \<open>What \<open>run\<close> returns\<close>

lemma run_outcome:
  assumes wf: "initialized s = (tenant s \<noteq> None)"
    and ini: "initialize t s = (None, s1)"
    and cb: "callback t (world s1) = (r, w)"
    and rs: "restore (tenant s) (s1\<lparr>world := w\<rparr>) = (x, s3)"
  shows "run t callback s = (case x of None \<Rightarrow> r | Some e \<Rightarrow> Inl e, s3)"
    and "x = None \<Longrightarrow> tenant s3 = tenant s \<and> initialized s3 = initialized s"
    and "x = Some e \<Longrightarrow> is_exception e \<Longrightarrow> tenant s3 = None \<and> \<not> initialized s3"
    and "tenant s = None \<Longrightarrow> list_all raises_exceptions_only (bootstrappers s) \<Longrightarrow> x = None"
proof -
  let ?s2 = "s1\<lparr>world := w\<rparr>"
  show "run t callback s = (case x of None \<Rightarrow> r | Some e \<Rightarrow> Inl e, s3)"
    using ini cb rs by (simp add: run_def split: option.splits)
  have s1: "initialized s1" using initialize_ok_state(1) [OF ini] .
  show "tenant s3 = tenant s \<and> initialized s3 = initialized s" if x: "x = None"
  proof (cases "tenant s")
    case None
    with rs x have e: "end_tenancy ?s2 = (None, s3)" by (simp add: restore_def)
    from s1 have "initialized ?s2" by simp
    from end_tenancy_ok(1) [OF e] end_tenancy_ok(3) [OF e this] None wf show ?thesis by simp
  next
    case (Some p)
    with rs x have rp: "initialize p ?s2 = (None, s3)" by (simp add: restore_def)
    from Some wf have act: "initialized s" by simp
    show ?thesis
    proof (cases "same_tenant s t")
      case True
      with ini have "s1 = s" by (simp add: initialize_noop)
      with Some act have "same_tenant ?s2 p" by (simp add: same_tenant_def)
      with rp have "s3 = ?s2" by (simp add: initialize_noop)
      with \<open>s1 = s\<close> Some act show ?thesis by simp
    next
      case False
      from initialize_ok_state(4) [OF ini False] have t1: "tenant ?s2 = Some t" by simp
      have nsame: "\<not> same_tenant ?s2 p"
      proof
        assume "same_tenant ?s2 p"
        with t1 have "tenant_id t = tenant_id p" by (simp add: same_tenant_def)
        with Some act have "same_tenant s t" by (simp add: same_tenant_def)
        with False show False by simp
      qed
      from initialize_ok_state(1) [OF rp] initialize_ok_state(4) [OF rp nsame] Some act
      show ?thesis by simp
    qed
  qed
  show "tenant s3 = None \<and> \<not> initialized s3" if x: "x = Some e" and ex: "is_exception e"
  proof (cases "tenant s")
    case None
    with rs x have "end_tenancy ?s2 = (Some e, s3)" by (simp add: restore_def)
    from end_tenancy_raise [OF this] ex show ?thesis by simp
  next
    case (Some p)
    with rs x have "initialize p ?s2 = (Some e, s3)" by (simp add: restore_def)
    from initialize_raise_state [OF this ex] show ?thesis by simp
  qed
  show "x = None" if nt: "tenant s = None"
    and g: "list_all raises_exceptions_only (bootstrappers s)"
  proof -
    from nt wf have "\<not> same_tenant s t" by (simp add: same_tenant_def)
    from initialize_ok_state(4) [OF ini this]
    have "initialized_bootstrappers ?s2 = bootstrappers s" by simp
    with g have "list_all raises_exceptions_only (initialized_bootstrappers ?s2)" by simp
    from end_tenancy_good [OF this] rs nt show ?thesis by (simp add: restore_def)
  qed
qed

lemma revert_loop_calls_ok:
  "revert_loop bs s = (None, s') \<Longrightarrow> calls s' = calls s @ map Revert bs"
proof (induction bs arbitrary: s)
  case Nil
  then show ?case by simp
next
  case (Cons b bs)
  obtain r w1 where step: "revert b (world s) = (r, w1)"
    by (cases "revert b (world s)")
  show ?case
  proof (cases r)
    case None
    with step Cons.prems Cons.IH [of "s\<lparr>world := w1, calls := calls s @ [Revert b]\<rparr>"]
    show ?thesis by simp
  next
    case (Some e)
    with step Cons.prems
      Cons.IH [of "s\<lparr>world := w1, calls := calls s @ [Revert b],
                     logged := logged s @ [(name b, e)]\<rparr>"]
    show ?thesis by (auto split: if_splits)
  qed
qed

lemma end_tenancy_calls:
  "initialized s \<Longrightarrow> end_tenancy s = (None, s') \<Longrightarrow>
     calls s' = calls s @ map Revert (rev (initialized_bootstrappers s))"
  by (auto simp: end_tenancy_def revert_initialized_def split: prod.splits option.splits
      dest: revert_loop_calls_ok)

section \<open>The states of the test scenarios\<close>

lemma active_1_eval:
  "active_1 = \<lparr>bootstrappers = [bA], tenant = Some tenant_a, initialized = True,
      initialized_bootstrappers = [bA], world = [''A:up''],
      calls = [Bootstrap bA tenant_a], logged = []\<rparr>"
  by (simp add: active_1_def new_context_def initialize_def same_tenant_def bA_def
      fake_bootstrapper_def)

lemma active_a_eval:
  "active_a = \<lparr>bootstrappers = [bF], tenant = Some tenant_a, initialized = True,
      initialized_bootstrappers = [bF], world = [''F:up''],
      calls = [Bootstrap bF tenant_a], logged = []\<rparr>"
  by (simp add: active_a_def new_context_def initialize_def same_tenant_def bF_def
      flaky_bootstrapper_def)

lemma active_stuck_eval:
  "active_stuck = \<lparr>bootstrappers = [bA, bB_stuck, bC], tenant = Some make_tenant,
     initialized = True, initialized_bootstrappers = [bA, bB_stuck, bC],
     world = [''A:up'', ''B:up'', ''C:up''],
     calls = [Bootstrap bA make_tenant, Bootstrap bB_stuck make_tenant,
              Bootstrap bC make_tenant], logged = []\<rparr>"
  by (simp add: active_stuck_def new_context_def initialize_def same_tenant_def bA_def
      bB_stuck_def bC_def fake_bootstrapper_def failing_revert_bootstrapper_def)


section \<open>Claims about the tenancy context\<close>

text \<open>
  C1, as stated, fails. With bootstrappers A and B whose \<open>bootstrap\<close> calls both
  succeed, where the \<open>revert\<close> of B is cancelled (it raises
  \<open>asyncio.CancelledError\<close>, which is no \<open>Exception\<close>), \<open>initialize\<close> returns
  and \<open>end\<close> raises: the log stops after the \<open>revert\<close> of B, A is never
  reverted and the context is still Active.
\<close>

theorem end_cancelled_counterexample:
  "\<not> initialized (new_context [bA, bB_cancelled_revert] []) \<and>
   bootstrap_all make_tenant [bA, bB_cancelled_revert] [] = Some [''A:up'', ''B:up''] \<and>
   fst (initialize make_tenant (new_context [bA, bB_cancelled_revert] [])) = None \<and>
   fst (end_tenancy (snd (initialize make_tenant (new_context [bA, bB_cancelled_revert] []))))
     = Some CancelledError \<and>
   calls (snd (end_tenancy (snd (initialize make_tenant
            (new_context [bA, bB_cancelled_revert] [])))))
     = [Bootstrap bA make_tenant, Bootstrap bB_cancelled_revert make_tenant,
        Revert bB_cancelled_revert] \<and>
   world (snd (end_tenancy (snd (initialize make_tenant
            (new_context [bA, bB_cancelled_revert] [])))))
     = [''A:up'', ''B:up'', ''B:down''] \<and>
   initialized (snd (end_tenancy (snd (initialize make_tenant
            (new_context [bA, bB_cancelled_revert] [])))))"
  by (simp add: new_context_def initialize_def same_tenant_def end_tenancy_def
      revert_initialized_def is_exception_def bA_def bB_cancelled_revert_def
      fake_bootstrapper_def cancelled_revert_bootstrapper_def)

text \<open>
  C1, amended. From a context with no active tenant, when every \<open>bootstrap\<close>
  succeeds in turn and every \<open>revert\<close>, called in reverse order, returns or raises
  an \<open>Exception\<close>: \<open>initialize\<close> returns with the tenant Active, having called
  \<open>bootstrap\<close> on each bootstrapper once in configured order, and \<open>end\<close> then
  returns with no tenant, having called \<open>revert\<close> on each once in the exact
  reverse order. The call log gains the forward sequence followed by its reverse,
  the world is the one these calls leave, and the reverts that raised are logged.
\<close>

theorem initialize_end_call_log:
  assumes "\<not> initialized s"
    and "bootstrap_all t (bootstrappers s) (world s) = Some w1"
    and "revert_all (rev (bootstrappers s)) w1 = Some (l, w2)"
  shows "initialize t s
           = (None, s\<lparr>tenant := Some t, initialized_bootstrappers := bootstrappers s,
                      world := w1,
                      calls := calls s @ map (\<lambda>b. Bootstrap b t) (bootstrappers s),
                      initialized := True\<rparr>) \<and>
         end_tenancy (snd (initialize t s))
           = (None, s\<lparr>tenant := None, initialized_bootstrappers := [],
                      world := w2,
                      calls := calls s @ map (\<lambda>b. Bootstrap b t) (bootstrappers s)
                                 @ map Revert (rev (bootstrappers s)),
                      logged := logged s @ l,
                      initialized := False\<rparr>)"
proof -
  let ?s1 = "s\<lparr>tenant := Some t, initialized_bootstrappers := bootstrappers s,
                world := w1,
                calls := calls s @ map (\<lambda>b. Bootstrap b t) (bootstrappers s),
                initialized := True\<rparr>"
  from initialize_fresh_all [OF assms(1,2)] have ini: "initialize t s = (None, ?s1)" .
  have act: "initialized ?s1" by simp
  from assms(3)
  have "revert_all (rev (initialized_bootstrappers ?s1)) (world ?s1) = Some (l, w2)" by simp
  from end_tenancy_all [OF act this] ini show ?thesis by simp
qed

theorem initialize_end_call_log_witness:
  "\<not> initialized (new_context [bA, bB, bC] []) \<and>
   bootstrap_all make_tenant (bootstrappers (new_context [bA, bB, bC] []))
      (world (new_context [bA, bB, bC] [])) = Some [''A:up'', ''B:up'', ''C:up''] \<and>
   revert_all (rev (bootstrappers (new_context [bA, bB, bC] []))) [''A:up'', ''B:up'', ''C:up'']
     = Some ([], [''A:up'', ''B:up'', ''C:up'', ''C:down'', ''B:down'', ''A:down'']) \<and>
   fst (initialize make_tenant (new_context [bA, bB, bC] [])) = None \<and>
   end_tenancy (snd (initialize make_tenant (new_context [bA, bB, bC] [])))
     = (None,
        \<lparr>bootstrappers = [bA, bB, bC], tenant = None, initialized = False,
         initialized_bootstrappers = [],
         world = [''A:up'', ''B:up'', ''C:up'', ''C:down'', ''B:down'', ''A:down''],
         calls = [Bootstrap bA make_tenant, Bootstrap bB make_tenant, Bootstrap bC make_tenant,
                  Revert bC, Revert bB, Revert bA],
         logged = []\<rparr>)"
proof -
  have h1: "\<not> initialized (new_context [bA, bB, bC] [])"
    by (simp add: new_context_def)
  have h2: "bootstrap_all make_tenant (bootstrappers (new_context [bA, bB, bC] []))
      (world (new_context [bA, bB, bC] [])) = Some [''A:up'', ''B:up'', ''C:up'']"
    by (simp add: new_context_def bA_def bB_def bC_def fake_bootstrapper_def)
  have h3: "revert_all (rev (bootstrappers (new_context [bA, bB, bC] [])))
      [''A:up'', ''B:up'', ''C:up'']
     = Some ([], [''A:up'', ''B:up'', ''C:up'', ''C:down'', ''B:down'', ''A:down''])"
    by (simp add: new_context_def bA_def bB_def bC_def fake_bootstrapper_def)
  from initialize_end_call_log [OF h1 h2 h3, THEN conjunct1]
  have i: "fst (initialize make_tenant (new_context [bA, bB, bC] [])) = None"
    by simp
  from initialize_end_call_log [OF h1 h2 h3, THEN conjunct2]
  have "end_tenancy (snd (initialize make_tenant (new_context [bA, bB, bC] [])))
     = (None,
        \<lparr>bootstrappers = [bA, bB, bC], tenant = None, initialized = False,
         initialized_bootstrappers = [],
         world = [''A:up'', ''B:up'', ''C:up'', ''C:down'', ''B:down'', ''A:down''],
         calls = [Bootstrap bA make_tenant, Bootstrap bB make_tenant, Bootstrap bC make_tenant,
                  Revert bC, Revert bB, Revert bA],
         logged = []\<rparr>)"
    by (simp add: new_context_def)
  with h1 h2 h3 i show ?thesis by blast
qed

text \<open>
  C2, as stated, fails. With A, B, C, D configured, where the \<open>bootstrap\<close> of C
  is cancelled (it raises \<open>asyncio.CancelledError\<close>, which is no \<open>Exception\<close>),
  \<open>initialize\<close> raises it with no \<open>revert\<close> called at all and the tenant
  left set.
\<close>

theorem initialize_cancelled_counterexample:
  "bootstrap_all make_tenant [bA, bB] [] = Some [''A:up'', ''B:up''] \<and>
   bootstrap bC_cancelled make_tenant [''A:up'', ''B:up'']
     = (Some CancelledError, [''A:up'', ''B:up'', ''C:up'']) \<and>
   fst (initialize make_tenant (new_context [bA, bB, bC_cancelled, bD] []))
     = Some CancelledError \<and>
   calls (snd (initialize make_tenant (new_context [bA, bB, bC_cancelled, bD] [])))
     = [Bootstrap bA make_tenant, Bootstrap bB make_tenant, Bootstrap bC_cancelled make_tenant] \<and>
   world (snd (initialize make_tenant (new_context [bA, bB, bC_cancelled, bD] [])))
     = [''A:up'', ''B:up'', ''C:up''] \<and>
   tenant (snd (initialize make_tenant (new_context [bA, bB, bC_cancelled, bD] [])))
     = Some make_tenant"
  by (simp add: new_context_def initialize_def same_tenant_def is_exception_def
      bA_def bB_def bC_cancelled_def fake_bootstrapper_def cancelled_bootstrapper_def)

text \<open>
  C2, amended. From a context with no active tenant, when the bootstrappers
  before the k-th succeed in turn, the \<open>bootstrap\<close> of the k-th raises an
  \<open>Exception\<close> \<open>e\<close>, and the reverts of bootstrappers k-1..1 each return or
  raise an \<open>Exception\<close>: \<open>initialize\<close> raises \<open>e\<close>; \<open>bootstrap\<close> has been called
  once on each of 1..k in order and on none of k+1..N, then \<open>revert\<close> once on each
  of k-1..1 in that order and not on k; the world is the one these calls leave,
  the stack holds 1..k-1, the reverts that raised are logged, and the context has
  no tenant and is not initialized.
\<close>

theorem initialize_failure_rollback:
  assumes "\<not> initialized s"
    and "bootstrappers s = pre @ b # post"
    and "bootstrap_all t pre (world s) = Some w1"
    and "bootstrap b t w1 = (Some e, w2)"
    and "is_exception e"
    and "revert_all (rev pre) w2 = Some (l, w3)"
  shows "initialize t s
           = (Some e,
              s\<lparr>tenant := None, initialized := False, initialized_bootstrappers := pre,
                world := w3,
                calls := calls s @ map (\<lambda>b. Bootstrap b t) pre @ [Bootstrap b t]
                           @ map Revert (rev pre),
                logged := logged s @ l\<rparr>)"
  using initialize_raises [OF assms] by simp

theorem initialize_failure_rollback_witness:
  "\<not> initialized (new_context [bA, bB, bC_failing, bD] []) \<and>
   bootstrappers (new_context [bA, bB, bC_failing, bD] []) = [bA, bB] @ bC_failing # [bD] \<and>
   bootstrap_all make_tenant [bA, bB] (world (new_context [bA, bB, bC_failing, bD] []))
     = Some [''A:up'', ''B:up''] \<and>
   bootstrap bC_failing make_tenant [''A:up'', ''B:up'']
     = (Some (RuntimeError ''C failed''), [''A:up'', ''B:up'', ''C:up'']) \<and>
   is_exception (RuntimeError ''C failed'') \<and>
   revert_all (rev [bA, bB]) [''A:up'', ''B:up'', ''C:up'']
     = Some ([], [''A:up'', ''B:up'', ''C:up'', ''B:down'', ''A:down'']) \<and>
   initialize make_tenant (new_context [bA, bB, bC_failing, bD] [])
     = (Some (RuntimeError ''C failed''),
        \<lparr>bootstrappers = [bA, bB, bC_failing, bD], tenant = None, initialized = False,
         initialized_bootstrappers = [bA, bB],
         world = [''A:up'', ''B:up'', ''C:up'', ''B:down'', ''A:down''],
         calls = [Bootstrap bA make_tenant, Bootstrap bB make_tenant,
                  Bootstrap bC_failing make_tenant, Revert bB, Revert bA],
         logged = []\<rparr>)"
proof -
  have h1: "\<not> initialized (new_context [bA, bB, bC_failing, bD] [])"
    by (simp add: new_context_def)
  have h2: "bootstrappers (new_context [bA, bB, bC_failing, bD] []) = [bA, bB] @ bC_failing # [bD]"
    by (simp add: new_context_def)
  have h3: "bootstrap_all make_tenant [bA, bB] (world (new_context [bA, bB, bC_failing, bD] []))
     = Some [''A:up'', ''B:up'']"
    by (simp add: new_context_def bA_def bB_def fake_bootstrapper_def)
  have h4: "bootstrap bC_failing make_tenant [''A:up'', ''B:up'']
     = (Some (RuntimeError ''C failed''), [''A:up'', ''B:up'', ''C:up''])"
    by (simp add: bC_failing_def fake_bootstrapper_def)
  have h5: "is_exception (RuntimeError ''C failed'')"
    by (simp add: is_exception_def)
  have h6: "revert_all (rev [bA, bB]) [''A:up'', ''B:up'', ''C:up'']
     = Some ([], [''A:up'', ''B:up'', ''C:up'', ''B:down'', ''A:down''])"
    by (simp add: bA_def bB_def fake_bootstrapper_def)
  from initialize_failure_rollback [OF h1 h2 h3 h4 h5 h6]
  have "initialize make_tenant (new_context [bA, bB, bC_failing, bD] [])
     = (Some (RuntimeError ''C failed''),
        \<lparr>bootstrappers = [bA, bB, bC_failing, bD], tenant = None, initialized = False,
         initialized_bootstrappers = [bA, bB],
         world = [''A:up'', ''B:up'', ''C:up'', ''B:down'', ''A:down''],
         calls = [Bootstrap bA make_tenant, Bootstrap bB make_tenant,
                  Bootstrap bC_failing make_tenant, Revert bB, Revert bA],
         logged = []\<rparr>)"
    by (simp add: new_context_def)
  with h1 h2 h3 h4 h5 h6 show ?thesis by blast
qed

text \<open>
  C5, as stated, fails. With A, B, C configured, where the \<open>bootstrap\<close> of C
  raises and the \<open>revert\<close> of B is cancelled (it raises
  \<open>asyncio.CancelledError\<close>, which is no \<open>Exception\<close>): the rollback of the
  failed \<open>initialize\<close> stops at B, the \<open>revert\<close> of A is never called, nothing
  is logged, and the caller gets the \<open>CancelledError\<close> in place of the failure
  of C.
\<close>

theorem revert_cancelled_counterexample:
  "bootstrap bC_failing make_tenant [''A:up'', ''B:up'']
     = (Some (RuntimeError ''C failed''), [''A:up'', ''B:up'', ''C:up'']) \<and>
   revert bB_cancelled_revert [''A:up'', ''B:up'', ''C:up'']
     = (Some CancelledError, [''A:up'', ''B:up'', ''C:up'', ''B:down'']) \<and>
   initialize make_tenant (new_context [bA, bB_cancelled_revert, bC_failing] [])
     = (Some CancelledError,
        \<lparr>bootstrappers = [bA, bB_cancelled_revert, bC_failing], tenant = Some make_tenant,
         initialized = False, initialized_bootstrappers = [bA, bB_cancelled_revert],
         world = [''A:up'', ''B:up'', ''C:up'', ''B:down''],
         calls = [Bootstrap bA make_tenant, Bootstrap bB_cancelled_revert make_tenant,
                  Bootstrap bC_failing make_tenant, Revert bB_cancelled_revert],
         logged = []\<rparr>)"
  by (simp add: new_context_def initialize_def same_tenant_def revert_initialized_def
      is_exception_def bA_def bB_cancelled_revert_def bC_failing_def
      fake_bootstrapper_def cancelled_revert_bootstrapper_def)

text \<open>
  C5, amended. When every \<open>revert\<close> of the stack, called in reverse order, returns
  or raises an \<open>Exception\<close>, the rollback calls \<open>revert\<close> on every entry of the
  stack in reverse order: each one that raises is handed to the logger with the
  bootstrapper's name and the loop goes on, and \<open>_revert_initialized\<close> returns
  normally. \<open>end\<close> on an Active context then returns with no tenant. A failing
  \<open>initialize\<close> whose rollback is of this kind raises the \<open>Exception\<close> of the
  \<open>bootstrap\<close> that failed, not one of a \<open>revert\<close>.
\<close>

theorem revert_failure_swallowed:
  "(revert_all (rev (initialized_bootstrappers s)) (world s) = Some (l, w') \<longrightarrow>
      revert_initialized s
        = (None, s\<lparr>world := w',
                   calls := calls s @ map Revert (rev (initialized_bootstrappers s)),
                   logged := logged s @ l\<rparr>) \<and>
      (initialized s \<longrightarrow>
         end_tenancy s
           = (None, s\<lparr>world := w',
                      calls := calls s @ map Revert (rev (initialized_bootstrappers s)),
                      logged := logged s @ l, tenant := None, initialized := False,
                      initialized_bootstrappers := []\<rparr>))) \<and>
   (\<not> initialized s0 \<and> bootstrappers s0 = pre @ f # post \<and>
    bootstrap_all t pre (world s0) = Some w1 \<and> bootstrap f t w1 = (Some e, w2) \<and>
    is_exception e \<and> revert_all (rev pre) w2 = Some (l0, w3)
      \<longrightarrow> initialize t s0
            = (Some e,
               s0\<lparr>tenant := None, initialized := False, initialized_bootstrappers := pre,
                  world := w3,
                  calls := calls s0 @ map (\<lambda>b. Bootstrap b t) (pre @ [f]) @ map Revert (rev pre),
                  logged := logged s0 @ l0\<rparr>))"
proof -
  have a: "revert_initialized s
        = (None, s\<lparr>world := w',
                   calls := calls s @ map Revert (rev (initialized_bootstrappers s)),
                   logged := logged s @ l\<rparr>)"
    if "revert_all (rev (initialized_bootstrappers s)) (world s) = Some (l, w')"
    using revert_loop_all [OF that] by (simp add: revert_initialized_def)
  have b: "end_tenancy s
           = (None, s\<lparr>world := w',
                      calls := calls s @ map Revert (rev (initialized_bootstrappers s)),
                      logged := logged s @ l, tenant := None, initialized := False,
                      initialized_bootstrappers := []\<rparr>)"
    if "revert_all (rev (initialized_bootstrappers s)) (world s) = Some (l, w')"
      and "initialized s"
    using end_tenancy_all [OF that(2,1)] .
  have c: "initialize t s0
            = (Some e,
               s0\<lparr>tenant := None, initialized := False, initialized_bootstrappers := pre,
                  world := w3,
                  calls := calls s0 @ map (\<lambda>b. Bootstrap b t) (pre @ [f]) @ map Revert (rev pre),
                  logged := logged s0 @ l0\<rparr>)"
    if "\<not> initialized s0" "bootstrappers s0 = pre @ f # post"
       "bootstrap_all t pre (world s0) = Some w1" "bootstrap f t w1 = (Some e, w2)"
       "is_exception e" "revert_all (rev pre) w2 = Some (l0, w3)"
    using initialize_raises [OF that] .
  from a b c show ?thesis by blast
qed

theorem revert_failure_swallowed_witness:
  "revert_all (rev (initialized_bootstrappers active_stuck)) (world active_stuck)
     = Some ([(''B'', RuntimeError ''B revert failed'')],
             [''A:up'', ''B:up'', ''C:up'', ''C:down'', ''B:down'', ''A:down'']) \<and>
   initialized active_stuck \<and>
   end_tenancy active_stuck
     = (None,
        \<lparr>bootstrappers = [bA, bB_stuck, bC], tenant = None, initialized = False,
         initialized_bootstrappers = [],
         world = [''A:up'', ''B:up'', ''C:up'', ''C:down'', ''B:down'', ''A:down''],
         calls = [Bootstrap bA make_tenant, Bootstrap bB_stuck make_tenant,
                  Bootstrap bC make_tenant, Revert bC, Revert bB_stuck, Revert bA],
         logged = [(''B'', RuntimeError ''B revert failed'')]\<rparr>) \<and>
   \<not> initialized (new_context [bA, bB_stuck, bC_failing] []) \<and>
   bootstrappers (new_context [bA, bB_stuck, bC_failing] []) = [bA, bB_stuck] @ bC_failing # [] \<and>
   bootstrap_all make_tenant [bA, bB_stuck] (world (new_context [bA, bB_stuck, bC_failing] []))
     = Some [''A:up'', ''B:up''] \<and>
   bootstrap bC_failing make_tenant [''A:up'', ''B:up'']
     = (Some (RuntimeError ''C failed''), [''A:up'', ''B:up'', ''C:up'']) \<and>
   is_exception (RuntimeError ''C failed'') \<and>
   revert_all (rev [bA, bB_stuck]) [''A:up'', ''B:up'', ''C:up'']
     = Some ([(''B'', RuntimeError ''B revert failed'')],
             [''A:up'', ''B:up'', ''C:up'', ''B:down'', ''A:down'']) \<and>
   initialize make_tenant (new_context [bA, bB_stuck, bC_failing] [])
     = (Some (RuntimeError ''C failed''),
        \<lparr>bootstrappers = [bA, bB_stuck, bC_failing], tenant = None, initialized = False,
         initialized_bootstrappers = [bA, bB_stuck],
         world = [''A:up'', ''B:up'', ''C:up'', ''B:down'', ''A:down''],
         calls = [Bootstrap bA make_tenant, Bootstrap bB_stuck make_tenant,
                  Bootstrap bC_failing make_tenant, Revert bB_stuck, Revert bA],
         logged = [(''B'', RuntimeError ''B revert failed'')]\<rparr>)"
proof -
  have h1: "revert_all (rev (initialized_bootstrappers active_stuck)) (world active_stuck)
     = Some ([(''B'', RuntimeError ''B revert failed'')],
             [''A:up'', ''B:up'', ''C:up'', ''C:down'', ''B:down'', ''A:down''])"
    by (simp add: active_stuck_eval is_exception_def bA_def bB_stuck_def bC_def
        fake_bootstrapper_def failing_revert_bootstrapper_def)
  have h2: "initialized active_stuck"
    by (simp add: active_stuck_eval)
  have h3: "\<not> initialized (new_context [bA, bB_stuck, bC_failing] [])"
    by (simp add: new_context_def)
  have h4: "bootstrappers (new_context [bA, bB_stuck, bC_failing] []) = [bA, bB_stuck] @ bC_failing # []"
    by (simp add: new_context_def)
  have h5: "bootstrap_all make_tenant [bA, bB_stuck] (world (new_context [bA, bB_stuck, bC_failing] []))
     = Some [''A:up'', ''B:up'']"
    by (simp add: new_context_def bA_def bB_stuck_def fake_bootstrapper_def
        failing_revert_bootstrapper_def)
  have h6: "bootstrap bC_failing make_tenant [''A:up'', ''B:up'']
     = (Some (RuntimeError ''C failed''), [''A:up'', ''B:up'', ''C:up''])"
    by (simp add: bC_failing_def fake_bootstrapper_def)
  have h7: "is_exception (RuntimeError ''C failed'')"
    by (simp add: is_exception_def)
  have h8: "revert_all (rev [bA, bB_stuck]) [''A:up'', ''B:up'', ''C:up'']
     = Some ([(''B'', RuntimeError ''B revert failed'')],
             [''A:up'', ''B:up'', ''C:up'', ''B:down'', ''A:down''])"
    by (simp add: is_exception_def bA_def bB_stuck_def fake_bootstrapper_def
        failing_revert_bootstrapper_def)
  note T = revert_failure_swallowed
      [of active_stuck "[(''B'', RuntimeError ''B revert failed'')]"
          "[''A:up'', ''B:up'', ''C:up'', ''C:down'', ''B:down'', ''A:down'']"
          "new_context [bA, bB_stuck, bC_failing] []" "[bA, bB_stuck]" bC_failing "[]"
          make_tenant "[''A:up'', ''B:up'']" "RuntimeError ''C failed''"
          "[''A:up'', ''B:up'', ''C:up'']" "[(''B'', RuntimeError ''B revert failed'')]"
          "[''A:up'', ''B:up'', ''C:up'', ''B:down'', ''A:down'']"]
  from T h1 h2 have "end_tenancy active_stuck
           = (None, active_stuck\<lparr>world := [''A:up'', ''B:up'', ''C:up'', ''C:down'', ''B:down'', ''A:down''],
                      calls := calls active_stuck @ map Revert (rev (initialized_bootstrappers active_stuck)),
                      logged := logged active_stuck @ [(''B'', RuntimeError ''B revert failed'')],
                      tenant := None, initialized := False,
                      initialized_bootstrappers := []\<rparr>)"
    by blast
  then have A: "end_tenancy active_stuck
     = (None,
        \<lparr>bootstrappers = [bA, bB_stuck, bC], tenant = None, initialized = False,
         initialized_bootstrappers = [],
         world = [''A:up'', ''B:up'', ''C:up'', ''C:down'', ''B:down'', ''A:down''],
         calls = [Bootstrap bA make_tenant, Bootstrap bB_stuck make_tenant,
                  Bootstrap bC make_tenant, Revert bC, Revert bB_stuck, Revert bA],
         logged = [(''B'', RuntimeError ''B revert failed'')]\<rparr>)"
    by (simp add: active_stuck_eval)
  from T h3 h4 h5 h6 h7 h8
  have "initialize make_tenant (new_context [bA, bB_stuck, bC_failing] [])
            = (Some (RuntimeError ''C failed''),
               (new_context [bA, bB_stuck, bC_failing] [])
                 \<lparr>tenant := None, initialized := False,
                  initialized_bootstrappers := [bA, bB_stuck],
                  world := [''A:up'', ''B:up'', ''C:up'', ''B:down'', ''A:down''],
                  calls := calls (new_context [bA, bB_stuck, bC_failing] [])
                    @ map (\<lambda>b. Bootstrap b make_tenant) ([bA, bB_stuck] @ [bC_failing])
                    @ map Revert (rev [bA, bB_stuck]),
                  logged := logged (new_context [bA, bB_stuck, bC_failing] [])
                    @ [(''B'', RuntimeError ''B revert failed'')]\<rparr>)"
    by blast
  then have B: "initialize make_tenant (new_context [bA, bB_stuck, bC_failing] [])
     = (Some (RuntimeError ''C failed''),
        \<lparr>bootstrappers = [bA, bB_stuck, bC_failing], tenant = None, initialized = False,
         initialized_bootstrappers = [bA, bB_stuck],
         world = [''A:up'', ''B:up'', ''C:up'', ''B:down'', ''A:down''],
         calls = [Bootstrap bA make_tenant, Bootstrap bB_stuck make_tenant,
                  Bootstrap bC_failing make_tenant, Revert bB_stuck, Revert bA],
         logged = [(''B'', RuntimeError ''B revert failed'')]\<rparr>)"
    by (simp add: new_context_def)
  from h1 h2 h3 h4 h5 h6 h7 h8 A B show ?thesis by blast
qed

text \<open>
  C3, as stated, fails. With a bootstrapper that raises on its third \<open>bootstrap\<close>
  and \<open>tenant_a\<close> active, \<open>run\<close> for \<open>tenant_b\<close> reaches the callback; the
  re-initialization of \<open>tenant_a\<close> in the \<open>finally\<close> block raises. The caller
  gets that exception, neither the callback's result nor the callback's exception,
  and no tenant is active afterwards.
\<close>

theorem run_restore_counterexample:
  "initialized active_a \<and> tenant active_a = Some tenant_a \<and>
   fst (initialize tenant_b active_a) = None \<and>
   fst (callback_returning_name tenant_b (world (snd (initialize tenant_b active_a))))
     = Inr ''Tenant B'' \<and>
   fst (run tenant_b callback_returning_name active_a) = Inl (RuntimeError ''F failed'') \<and>
   tenant (snd (run tenant_b callback_returning_name active_a)) = None \<and>
   fst (callback_that_throws tenant_b (world (snd (initialize tenant_b active_a))))
     = Inl (RuntimeError ''callback boom'') \<and>
   fst (run tenant_b callback_that_throws active_a) = Inl (RuntimeError ''F failed'') \<and>
   tenant (snd (run tenant_b callback_that_throws active_a)) = None"
  by (simp add: active_a_eval run_def restore_def initialize_def same_tenant_def
      end_tenancy_def revert_initialized_def is_exception_def bF_def flaky_bootstrapper_def
      tenant_a_def tenant_b_def callback_returning_name_def callback_that_throws_def)

text \<open>
  C3, amended. From a state that is Active for a tenant or has none, once
  \<open>initialize\<close> has succeeded, \<open>run\<close> always ends with the restoration step
  applied to the state the callback left, whether the callback returned or raised.
  If the restoration does not raise, the previous tenant (or none) is current again
  and the caller gets what the callback produced, result or exception; with no
  tenant active before and bootstrappers that raise nothing but \<open>Exception\<close>s,
  the restoration never raises. If the restoration raises, the caller gets that
  exception, and when it is an \<open>Exception\<close> the context has no tenant.
\<close>

theorem run_restores_previous:
  assumes "initialized s = (tenant s \<noteq> None)" and "fst (initialize t s) = None"
  shows "snd (run t callback s) = snd (restore (tenant s) (after_callback t callback s)) \<and>
         (fst (restore (tenant s) (after_callback t callback s)) = None \<longrightarrow>
            fst (run t callback s) = fst (callback t (world (snd (initialize t s)))) \<and>
            tenant (snd (run t callback s)) = tenant s \<and>
            initialized (snd (run t callback s)) = initialized s) \<and>
         (tenant s = None \<and> list_all raises_exceptions_only (bootstrappers s) \<longrightarrow>
            fst (restore (tenant s) (after_callback t callback s)) = None) \<and>
         (fst (restore (tenant s) (after_callback t callback s)) = Some e \<longrightarrow>
            fst (run t callback s) = Inl e \<and>
            (is_exception e \<longrightarrow>
               tenant (snd (run t callback s)) = None \<and>
               \<not> initialized (snd (run t callback s))))"
proof -
  obtain s1 where ini: "initialize t s = (None, s1)"
    using assms(2) by (cases "initialize t s") simp
  obtain r w where cb: "callback t (world s1) = (r, w)"
    by (cases "callback t (world s1)")
  obtain x s3 where rs: "restore (tenant s) (s1\<lparr>world := w\<rparr>) = (x, s3)"
    by (cases "restore (tenant s) (s1\<lparr>world := w\<rparr>)")
  from ini cb have ac: "after_callback t callback s = s1\<lparr>world := w\<rparr>"
    by (simp add: after_callback_def)
  note o = run_outcome [of s t s1 callback r w x s3, OF assms(1) ini cb rs]
  from o(1) rs ac have a: "snd (run t callback s) = snd (restore (tenant s) (after_callback t callback s))"
    by simp
  have b: "fst (run t callback s) = fst (callback t (world (snd (initialize t s)))) \<and>
            tenant (snd (run t callback s)) = tenant s \<and>
            initialized (snd (run t callback s)) = initialized s"
    if "fst (restore (tenant s) (after_callback t callback s)) = None"
  proof -
    from that rs ac have x: "x = None" by simp
    from o(1) o(2) [OF x] x ini cb show ?thesis by simp
  qed
  have c: "fst (restore (tenant s) (after_callback t callback s)) = None"
    if "tenant s = None" "list_all raises_exceptions_only (bootstrappers s)"
    using o(4) [OF that] rs ac by simp
  have d: "fst (run t callback s) = Inl e \<and>
            (is_exception e \<longrightarrow>
               tenant (snd (run t callback s)) = None \<and>
               \<not> initialized (snd (run t callback s)))"
    if "fst (restore (tenant s) (after_callback t callback s)) = Some e"
  proof -
    from that rs ac have x: "x = Some e" by simp
    from o(1) x o(3) [OF x] show ?thesis by simp
  qed
  from a b c d show ?thesis by blast
qed

theorem run_restores_previous_witness:
  "(initialized active_1 = (tenant active_1 \<noteq> None)) \<and>
   fst (initialize tenant_b active_1) = None \<and>
   fst (restore (tenant active_1) (after_callback tenant_b callback_that_throws active_1)) = None \<and>
   fst (run tenant_b callback_that_throws active_1) = Inl (RuntimeError ''callback boom'') \<and>
   tenant (snd (run tenant_b callback_that_throws active_1)) = Some tenant_a \<and>
   initialized (snd (run tenant_b callback_that_throws active_1)) \<and>
   (initialized (new_context [bA] []) = (tenant (new_context [bA] []) \<noteq> None)) \<and>
   tenant (new_context [bA] []) = None \<and>
   list_all raises_exceptions_only (bootstrappers (new_context [bA] [])) \<and>
   fst (initialize make_tenant (new_context [bA] [])) = None \<and>
   fst (run make_tenant callback_returning_name (new_context [bA] [])) = Inr ''Acme Corp'' \<and>
   tenant (snd (run make_tenant callback_returning_name (new_context [bA] []))) = None \<and>
   \<not> initialized (snd (run make_tenant callback_returning_name (new_context [bA] []))) \<and>
   (initialized active_a = (tenant active_a \<noteq> None)) \<and>
   fst (initialize tenant_b active_a) = None \<and>
   fst (restore (tenant active_a) (after_callback tenant_b callback_returning_name active_a))
     = Some (RuntimeError ''F failed'') \<and>
   is_exception (RuntimeError ''F failed'') \<and>
   fst (run tenant_b callback_returning_name active_a) = Inl (RuntimeError ''F failed'') \<and>
   tenant (snd (run tenant_b callback_returning_name active_a)) = None \<and>
   \<not> initialized (snd (run tenant_b callback_returning_name active_a))"
proof -
  have a1: "initialized active_1 = (tenant active_1 \<noteq> None)"
    by (simp add: active_1_eval)
  have a2: "fst (initialize tenant_b active_1) = None"
    by (simp add: active_1_eval initialize_def same_tenant_def end_tenancy_def
        revert_initialized_def bA_def fake_bootstrapper_def tenant_a_def tenant_b_def)
  have a3: "fst (restore (tenant active_1) (after_callback tenant_b callback_that_throws active_1)) = None"
    by (simp add: active_1_eval after_callback_def restore_def initialize_def same_tenant_def
        end_tenancy_def revert_initialized_def bA_def fake_bootstrapper_def tenant_a_def tenant_b_def callback_that_throws_def)
  have a4: "fst (callback_that_throws tenant_b (world (snd (initialize tenant_b active_1))))
     = Inl (RuntimeError ''callback boom'')"
    by (simp add: callback_that_throws_def)
  have a5: "tenant active_1 = Some tenant_a" by (simp add: active_1_eval)
  have a6: "initialized active_1" by (simp add: active_1_eval)
  have b1: "initialized (new_context [bA] []) = (tenant (new_context [bA] []) \<noteq> None)"
    by (simp add: new_context_def)
  have b2: "fst (initialize make_tenant (new_context [bA] [])) = None"
    by (simp add: new_context_def initialize_def same_tenant_def bA_def fake_bootstrapper_def)
  have b3: "tenant (new_context [bA] []) = None" by (simp add: new_context_def)
  have b4: "fst (callback_returning_name make_tenant
      (world (snd (initialize make_tenant (new_context [bA] []))))) = Inr ''Acme Corp''"
    by (simp add: callback_returning_name_def make_tenant_def)
  have b5: "\<not> initialized (new_context [bA] [])" by (simp add: new_context_def)
  have b6: "list_all raises_exceptions_only (bootstrappers (new_context [bA] []))"
    by (simp add: new_context_def raises_exceptions_only_def bA_def fake_bootstrapper_def)
  have c1: "initialized active_a = (tenant active_a \<noteq> None)"
    by (simp add: active_a_eval)
  have c2: "fst (initialize tenant_b active_a) = None"
    by (simp add: active_a_eval initialize_def same_tenant_def end_tenancy_def
        revert_initialized_def bF_def flaky_bootstrapper_def tenant_a_def tenant_b_def)
  have c3: "fst (restore (tenant active_a) (after_callback tenant_b callback_returning_name active_a))
     = Some (RuntimeError ''F failed'')"
    by (simp add: active_a_eval after_callback_def restore_def initialize_def same_tenant_def
        end_tenancy_def revert_initialized_def is_exception_def bF_def flaky_bootstrapper_def
        tenant_a_def tenant_b_def callback_returning_name_def)
  have c4: "is_exception (RuntimeError ''F failed'')"
    by (simp add: is_exception_def)
  from run_restores_previous [OF a1 a2, of callback_that_throws] a3
  have "fst (run tenant_b callback_that_throws active_1)
          = fst (callback_that_throws tenant_b (world (snd (initialize tenant_b active_1)))) \<and>
        tenant (snd (run tenant_b callback_that_throws active_1)) = tenant active_1 \<and>
        initialized (snd (run tenant_b callback_that_throws active_1)) = initialized active_1"
    by blast
  with a4 a5 a6
  have A: "fst (run tenant_b callback_that_throws active_1) = Inl (RuntimeError ''callback boom'') \<and>
   tenant (snd (run tenant_b callback_that_throws active_1)) = Some tenant_a \<and>
   initialized (snd (run tenant_b callback_that_throws active_1))"
    by simp
  from run_restores_previous [OF b1 b2, of callback_returning_name] b3 b6
  have "fst (run make_tenant callback_returning_name (new_context [bA] []))
          = fst (callback_returning_name make_tenant
                   (world (snd (initialize make_tenant (new_context [bA] []))))) \<and>
        tenant (snd (run make_tenant callback_returning_name (new_context [bA] [])))
          = tenant (new_context [bA] []) \<and>
        initialized (snd (run make_tenant callback_returning_name (new_context [bA] [])))
          = initialized (new_context [bA] [])"
    by blast
  with b3 b4 b5
  have B: "fst (run make_tenant callback_returning_name (new_context [bA] [])) = Inr ''Acme Corp'' \<and>
   tenant (snd (run make_tenant callback_returning_name (new_context [bA] []))) = None \<and>
   \<not> initialized (snd (run make_tenant callback_returning_name (new_context [bA] [])))"
    by simp
  from run_restores_previous [OF c1 c2, of callback_returning_name "RuntimeError ''F failed''"] c3 c4
  have C: "fst (run tenant_b callback_returning_name active_a) = Inl (RuntimeError ''F failed'') \<and>
   tenant (snd (run tenant_b callback_returning_name active_a)) = None \<and>
   \<not> initialized (snd (run tenant_b callback_returning_name active_a))"
    by blast
  from a1 a2 a3 A b1 b2 b3 b6 B c1 c2 c3 c4 C show ?thesis by simp
qed

text \<open>
  C8. \<open>initialize\<close> for a tenant whose id is that of the tenant the context is
  Active for returns normally and leaves the whole state, call log included, as it
  was. So a second \<open>initialize\<close> with the same id right after a successful one
  changes nothing, and from a context with no tenant the two calls together make
  one \<open>bootstrap\<close> call per bootstrapper.
\<close>

theorem initialize_same_tenant_noop:
  "(initialized s \<and> tenant s = Some cur \<and> tenant_id cur = tenant_id t
      \<longrightarrow> initialize t s = (None, s)) \<and>
   (fst (initialize t s) = None \<and> tenant_id t' = tenant_id t
      \<longrightarrow> initialize t' (snd (initialize t s)) = (None, snd (initialize t s))) \<and>
   (\<not> initialized s \<and> fst (initialize t s) = None \<and> tenant_id t' = tenant_id t
      \<longrightarrow> calls (snd (initialize t' (snd (initialize t s))))
            = calls s @ map (\<lambda>b. Bootstrap b t) (bootstrappers s))"
proof -
  have a: "initialize t s = (None, s)"
    if "initialized s" "tenant s = Some cur" "tenant_id cur = tenant_id t"
    using that by (simp add: initialize_noop same_tenant_def)
  have b: "initialize t' (snd (initialize t s)) = (None, snd (initialize t s))"
    if ok: "fst (initialize t s) = None" and eq: "tenant_id t' = tenant_id t"
  proof -
    obtain s1 where ini: "initialize t s = (None, s1)"
      using ok by (cases "initialize t s") simp
    have "same_tenant s1 t'"
    proof (cases "same_tenant s t")
      case True
      with ini have "s1 = s" by (simp add: initialize_noop)
      with True eq show ?thesis by (simp add: same_tenant_def split: option.splits)
    next
      case False
      from initialize_ok_state(1) [OF ini] initialize_ok_state(4) [OF ini False] eq
      show ?thesis by (simp add: same_tenant_def)
    qed
    with ini show ?thesis by (simp add: initialize_noop)
  qed
  have c: "calls (snd (initialize t' (snd (initialize t s))))
            = calls s @ map (\<lambda>b. Bootstrap b t) (bootstrappers s)"
    if ni: "\<not> initialized s" and ok: "fst (initialize t s) = None"
      and eq: "tenant_id t' = tenant_id t"
  proof -
    let ?s2 = "s\<lparr>tenant := Some t, initialized_bootstrappers := []\<rparr>"
    obtain x s3 where loop: "bootstrap_loop t (bootstrappers s) ?s2 = (x, s3)"
      by (cases "bootstrap_loop t (bootstrappers s) ?s2")
    with ni ok have x: "x = None"
      by (cases x) (simp_all add: initialize_def same_tenant_def)
    with loop ni have ini: "initialize t s = (None, s3\<lparr>initialized := True\<rparr>)"
      by (simp add: initialize_def same_tenant_def)
    from loop x have "bootstrap_loop t (bootstrappers s) ?s2 = (None, s3)" by simp
    from bootstrap_loop_ok [OF this]
    have "calls s3 = calls s @ map (\<lambda>b. Bootstrap b t) (bootstrappers s)" by simp
    with b [OF ok eq] ini show ?thesis by simp
  qed
  from a b c show ?thesis by blast
qed

theorem initialize_same_tenant_noop_witness:
  "initialized active_1 \<and> tenant active_1 = Some tenant_a \<and>
   tenant_id tenant_a = tenant_id (tenant_a\<lparr>tenant_name := ''Renamed''\<rparr>) \<and>
   initialize (tenant_a\<lparr>tenant_name := ''Renamed''\<rparr>) active_1 = (None, active_1) \<and>
   \<not> initialized (new_context [bA] []) \<and>
   fst (initialize make_tenant (new_context [bA] [])) = None \<and>
   initialize make_tenant (snd (initialize make_tenant (new_context [bA] [])))
     = (None, snd (initialize make_tenant (new_context [bA] []))) \<and>
   calls (snd (initialize make_tenant (snd (initialize make_tenant (new_context [bA] [])))))
     = [Bootstrap bA make_tenant]"
proof -
  have a1: "initialized active_1" and a2: "tenant active_1 = Some tenant_a"
    by (simp_all add: active_1_eval)
  have a3: "tenant_id tenant_a = tenant_id (tenant_a\<lparr>tenant_name := ''Renamed''\<rparr>)"
    by simp
  have b1: "\<not> initialized (new_context [bA] [])"
    by (simp add: new_context_def)
  have b2: "fst (initialize make_tenant (new_context [bA] [])) = None"
    by (simp add: new_context_def initialize_def same_tenant_def bA_def fake_bootstrapper_def)
  from initialize_same_tenant_noop
         [of active_1 tenant_a "tenant_a\<lparr>tenant_name := ''Renamed''\<rparr>"] a1 a2 a3
  have A: "initialize (tenant_a\<lparr>tenant_name := ''Renamed''\<rparr>) active_1 = (None, active_1)"
    by blast
  from initialize_same_tenant_noop [of "new_context [bA] []" _ make_tenant make_tenant] b1 b2
  have B1: "initialize make_tenant (snd (initialize make_tenant (new_context [bA] [])))
     = (None, snd (initialize make_tenant (new_context [bA] [])))"
    by blast
  from initialize_same_tenant_noop [of "new_context [bA] []" _ make_tenant make_tenant] b1 b2
  have "calls (snd (initialize make_tenant (snd (initialize make_tenant (new_context [bA] [])))))
     = calls (new_context [bA] []) @ map (\<lambda>b. Bootstrap b make_tenant)
         (bootstrappers (new_context [bA] []))"
    by blast
  also have "\<dots> = [Bootstrap bA make_tenant]"
    by (simp add: new_context_def)
  finally have B2:
    "calls (snd (initialize make_tenant (snd (initialize make_tenant (new_context [bA] [])))))
     = [Bootstrap bA make_tenant]" .
  from a1 a2 a3 A b1 b2 B1 B2 show ?thesis by blast
qed

text \<open>
  C9, as stated, fails. With A and C configured, where the \<open>bootstrap\<close> of C is
  cancelled (it raises \<open>asyncio.CancelledError\<close>, which is no \<open>Exception\<close>),
  \<open>initialize\<close> on a fresh context raises and leaves the tenant set, the stack
  holding A, the bootstrapper that completed, and \<open>initialized\<close> false.
\<close>

theorem invariant_cancelled_counterexample:
  "ctx_inv (new_context [bA, bC_cancelled] []) \<and>
   fst (initialize make_tenant (new_context [bA, bC_cancelled] [])) = Some CancelledError \<and>
   tenant (snd (initialize make_tenant (new_context [bA, bC_cancelled] []))) = Some make_tenant \<and>
   initialized_bootstrappers (snd (initialize make_tenant (new_context [bA, bC_cancelled] [])))
     = [bA] \<and>
   \<not> initialized (snd (initialize make_tenant (new_context [bA, bC_cancelled] []))) \<and>
   \<not> ctx_inv (snd (initialize make_tenant (new_context [bA, bC_cancelled] [])))"
  by (simp add: ctx_inv_def new_context_def initialize_def same_tenant_def is_exception_def
      bA_def bC_cancelled_def fake_bootstrapper_def cancelled_bootstrapper_def)

text \<open>
  C9, amended. A fresh context satisfies the invariant: \<open>initialized\<close> holds
  exactly when a tenant is set, and the stack is a prefix of the configured
  sequence, the whole of it when \<open>initialized\<close> holds. When no method of the
  configured bootstrappers raises anything but an \<open>Exception\<close>, each of
  \<open>initialize\<close>, \<open>end\<close>, \<open>run\<close>, \<open>central\<close> and \<open>run_for_multiple\<close> takes a
  state that satisfies the invariant to one that does, whether the call returns or
  raises, and a raising \<open>initialize\<close> leaves no tenant. After an \<open>initialize\<close>
  that fails at the k-th bootstrapper with a complete rollback, the stack is
  exactly the bootstrappers 1..k-1 that completed \<open>bootstrap\<close>.
\<close>

theorem operations_preserve_invariant:
  "ctx_inv (new_context bs w0) \<and>
   (ctx_inv s \<and> list_all raises_exceptions_only (bootstrappers s) \<longrightarrow>
      ctx_inv (snd (initialize t s)) \<and>
      ctx_inv (snd (end_tenancy s)) \<and>
      ctx_inv (snd (run t callback s)) \<and>
      ctx_inv (snd (central callback' s)) \<and>
      ctx_inv (snd (run_for_multiple ts callback'' s)) \<and>
      (fst (initialize t s) \<noteq> None \<longrightarrow>
         tenant (snd (initialize t s)) = None \<and> \<not> initialized (snd (initialize t s)))) \<and>
   (\<not> initialized s \<and> bootstrappers s = pre @ b # post \<and>
    bootstrap_all t pre (world s) = Some w1 \<and> bootstrap b t w1 = (Some e, w2) \<and>
    is_exception e \<and> revert_all (rev pre) w2 = Some (l, w3) \<longrightarrow>
      initialized_bootstrappers (snd (initialize t s)) = pre)"
proof -
  have a: "ctx_inv (new_context bs w0)"
    by (simp add: ctx_inv_def new_context_def)
  have b: "ctx_inv (snd (initialize t s)) \<and>
      ctx_inv (snd (end_tenancy s)) \<and>
      ctx_inv (snd (run t callback s)) \<and>
      ctx_inv (snd (central callback' s)) \<and>
      ctx_inv (snd (run_for_multiple ts callback'' s)) \<and>
      (fst (initialize t s) \<noteq> None \<longrightarrow>
         tenant (snd (initialize t s)) = None \<and> \<not> initialized (snd (initialize t s)))"
    if inv: "ctx_inv s" and good: "list_all raises_exceptions_only (bootstrappers s)"
  proof -
    have "tenant (snd (initialize t s)) = None \<and> \<not> initialized (snd (initialize t s))"
      if "fst (initialize t s) \<noteq> None"
    proof -
      from that obtain e1 s1 where bad: "initialize t s = (Some e1, s1)"
        by (cases "initialize t s") auto
      from initialize_good [OF good ctx_inv_stack [OF inv good] bad] have "is_exception e1" .
      from initialize_raise_state [OF bad this] bad show ?thesis by simp
    qed
    with initialize_inv [OF inv good, of t] end_tenancy_inv [OF inv good]
      run_inv [OF inv good, of t callback] central_inv [OF inv good, of callback']
      run_for_multiple_inv [OF inv good, of ts callback'']
    show ?thesis by blast
  qed
  have c: "initialized_bootstrappers (snd (initialize t s)) = pre"
    if "\<not> initialized s" "bootstrappers s = pre @ b # post"
      "bootstrap_all t pre (world s) = Some w1" "bootstrap b t w1 = (Some e, w2)"
      "is_exception e" "revert_all (rev pre) w2 = Some (l, w3)"
    using initialize_raises [OF that] by simp
  from a b c show ?thesis by blast
qed

theorem operations_preserve_invariant_witness:
  "ctx_inv active_1 \<and> initialized active_1 \<and>
   list_all raises_exceptions_only (bootstrappers active_1) \<and>
   ctx_inv (snd (initialize tenant_b active_1)) \<and>
   ctx_inv (snd (end_tenancy active_1)) \<and>
   ctx_inv (snd (run tenant_b callback_that_throws active_1)) \<and>
   ctx_inv (snd (central central_boom active_1)) \<and>
   ctx_inv (snd (run_for_multiple [tenant_a, tenant_b] callback_returning_name active_1)) \<and>
   ctx_inv (new_context [bA, bC_failing] []) \<and>
   list_all raises_exceptions_only (bootstrappers (new_context [bA, bC_failing] [])) \<and>
   fst (initialize make_tenant (new_context [bA, bC_failing] [])) \<noteq> None \<and>
   ctx_inv (snd (initialize make_tenant (new_context [bA, bC_failing] []))) \<and>
   tenant (snd (initialize make_tenant (new_context [bA, bC_failing] []))) = None \<and>
   \<not> initialized (snd (initialize make_tenant (new_context [bA, bC_failing] []))) \<and>
   initialized_bootstrappers (snd (initialize make_tenant (new_context [bA, bC_failing] []))) = [bA]"
proof -
  have a1: "ctx_inv active_1" and a2: "initialized active_1"
    by (simp_all add: active_1_eval ctx_inv_def)
  have a3: "list_all raises_exceptions_only (bootstrappers active_1)"
    by (simp add: active_1_eval raises_exceptions_only_def bA_def fake_bootstrapper_def)
  have b1: "ctx_inv (new_context [bA, bC_failing] [])"
    by (simp add: ctx_inv_def new_context_def)
  have b2: "list_all raises_exceptions_only (bootstrappers (new_context [bA, bC_failing] []))"
    by (auto simp: new_context_def raises_exceptions_only_def is_exception_def bA_def
        bC_failing_def fake_bootstrapper_def)
  have b3: "fst (initialize make_tenant (new_context [bA, bC_failing] [])) \<noteq> None"
    by (simp add: new_context_def initialize_def same_tenant_def revert_initialized_def
        is_exception_def bA_def bC_failing_def fake_bootstrapper_def)
  have b4: "\<not> initialized (new_context [bA, bC_failing] [])"
    "bootstrappers (new_context [bA, bC_failing] []) = [bA] @ bC_failing # []"
    "bootstrap_all make_tenant [bA] (world (new_context [bA, bC_failing] [])) = Some [''A:up'']"
    "bootstrap bC_failing make_tenant [''A:up'']
       = (Some (RuntimeError ''C failed''), [''A:up'', ''C:up''])"
    "is_exception (RuntimeError ''C failed'')"
    "revert_all (rev [bA]) [''A:up'', ''C:up''] = Some ([], [''A:up'', ''C:up'', ''A:down''])"
    by (simp_all add: new_context_def is_exception_def bA_def bC_failing_def
        fake_bootstrapper_def)
  from operations_preserve_invariant
         [of _ _ active_1 tenant_b callback_that_throws central_boom "[tenant_a, tenant_b]"
             callback_returning_name, THEN conjunct2, THEN conjunct1]
       a1 a3
  have A: "ctx_inv (snd (initialize tenant_b active_1)) \<and>
   ctx_inv (snd (end_tenancy active_1)) \<and>
   ctx_inv (snd (run tenant_b callback_that_throws active_1)) \<and>
   ctx_inv (snd (central central_boom active_1)) \<and>
   ctx_inv (snd (run_for_multiple [tenant_a, tenant_b] callback_returning_name active_1))"
    by blast
  note T = operations_preserve_invariant
         [of "[]" "[]" "new_context [bA, bC_failing] []" make_tenant callback_that_throws
             central_boom "[]" callback_returning_name "[bA]" bC_failing "[]"
             "[''A:up'']" "RuntimeError ''C failed''" "[''A:up'', ''C:up'']" "[]"
             "[''A:up'', ''C:up'', ''A:down'']"]
  from T [THEN conjunct2, THEN conjunct1] T [THEN conjunct2, THEN conjunct2] b1 b2 b3 b4
  have B: "ctx_inv (snd (initialize make_tenant (new_context [bA, bC_failing] []))) \<and>
   tenant (snd (initialize make_tenant (new_context [bA, bC_failing] []))) = None \<and>
   \<not> initialized (snd (initialize make_tenant (new_context [bA, bC_failing] []))) \<and>
   initialized_bootstrappers (snd (initialize make_tenant (new_context [bA, bC_failing] []))) = [bA]"
    by blast
  from a1 a2 a3 A b1 b2 b3 B show ?thesis by blast
qed

text \<open>
  C10. With a tenant active, \<open>central\<close> first ends the tenancy. Once that has
  returned and the callback is invoked: if the callback raises, the exception
  reaches the caller, no \<open>bootstrap\<close> is called again and the context is left with
  no tenant; if the callback returns, the state is that of re-initializing the
  previous tenant, and when that succeeds the callback's result is returned with
  the previous tenant active again.
\<close>

theorem central_callback_raises:
  assumes "initialized s" and "tenant s = Some p" and "fst (end_tenancy s) = None"
  shows "(callback (Some p) (world (snd (end_tenancy s))) = (Inl e, w) \<longrightarrow>
            fst (central callback s) = Inl e \<and>
            tenant (snd (central callback s)) = None \<and>
            \<not> initialized (snd (central callback s)) \<and>
            calls (snd (central callback s)) =
              calls s @ map Revert (rev (initialized_bootstrappers s))) \<and>
         (callback (Some p) (world (snd (end_tenancy s))) = (Inr v, w) \<longrightarrow>
            snd (central callback s)
              = snd (initialize p ((snd (end_tenancy s))\<lparr>world := w\<rparr>)) \<and>
            (fst (initialize p ((snd (end_tenancy s))\<lparr>world := w\<rparr>)) = None \<longrightarrow>
               fst (central callback s) = Inr v \<and>
               tenant (snd (central callback s)) = Some p \<and>
               initialized (snd (central callback s))))"
proof -
  obtain s1 where e: "end_tenancy s = (None, s1)"
    using assms(3) by (cases "end_tenancy s") simp
  from end_tenancy_ok(1) [OF e] end_tenancy_ok(3) [OF e assms(1)]
    end_tenancy_calls [OF assms(1) e]
  have e1: "calls s1 = calls s @ map Revert (rev (initialized_bootstrappers s))"
    "tenant s1 = None" "\<not> initialized s1" by simp_all
  have a: "fst (central callback s) = Inl e \<and>
            tenant (snd (central callback s)) = None \<and>
            \<not> initialized (snd (central callback s)) \<and>
            calls (snd (central callback s)) =
              calls s @ map Revert (rev (initialized_bootstrappers s))"
    if "callback (Some p) (world s1) = (Inl e, w)"
    using that assms(2) e e1 by (simp add: central_def)
  have b: "snd (central callback s) = snd (initialize p (s1\<lparr>world := w\<rparr>)) \<and>
            (fst (initialize p (s1\<lparr>world := w\<rparr>)) = None \<longrightarrow>
               fst (central callback s) = Inr v \<and>
               tenant (snd (central callback s)) = Some p \<and>
               initialized (snd (central callback s)))"
    if cb: "callback (Some p) (world s1) = (Inr v, w)"
  proof -
    obtain x s2 where ini: "initialize p (s1\<lparr>world := w\<rparr>) = (x, s2)"
      by (cases "initialize p (s1\<lparr>world := w\<rparr>)")
    from cb assms(2) e ini
    have c: "central callback s = (case x of None \<Rightarrow> Inr v | Some e \<Rightarrow> Inl e, s2)"
      by (simp add: central_def split: option.splits)
    from e1 have ns: "\<not> same_tenant (s1\<lparr>world := w\<rparr>) p" by (simp add: same_tenant_def)
    have "tenant s2 = Some p \<and> initialized s2" if "x = None"
      using initialize_ok_state(1) [of p "s1\<lparr>world := w\<rparr>" s2]
        initialize_ok_state(4) [of p "s1\<lparr>world := w\<rparr>" s2] ini that ns by simp
    with c ini show ?thesis by auto
  qed
  from e have s1: "snd (end_tenancy s) = s1" by simp
  show ?thesis unfolding s1 using a b by blast
qed

theorem central_callback_raises_witness:
  "initialized active_1 \<and> tenant active_1 = Some tenant_a \<and>
   fst (end_tenancy active_1) = None \<and>
   central_boom (Some tenant_a) (world (snd (end_tenancy active_1)))
     = (Inl (RuntimeError ''central boom''), [''A:up'', ''A:down'', ''central-work'']) \<and>
   fst (central central_boom active_1) = Inl (RuntimeError ''central boom'') \<and>
   tenant (snd (central central_boom active_1)) = None \<and>
   \<not> initialized (snd (central central_boom active_1)) \<and>
   calls (snd (central central_boom active_1)) = [Bootstrap bA tenant_a, Revert bA] \<and>
   central_work (Some tenant_a) (world (snd (end_tenancy active_1)))
     = (Inr (), [''A:up'', ''A:down'', ''central-work'']) \<and>
   fst (initialize tenant_a
          ((snd (end_tenancy active_1))\<lparr>world := [''A:up'', ''A:down'', ''central-work'']\<rparr>))
     = None \<and>
   fst (central central_work active_1) = Inr () \<and>
   tenant (snd (central central_work active_1)) = Some tenant_a \<and>
   initialized (snd (central central_work active_1))"
proof -
  have a1: "initialized active_1" and a2: "tenant active_1 = Some tenant_a"
    by (simp_all add: active_1_eval)
  have a0: "fst (end_tenancy active_1) = None"
    by (simp add: active_1_eval end_tenancy_def revert_initialized_def bA_def
        fake_bootstrapper_def)
  have a3: "central_boom (Some tenant_a) (world (snd (end_tenancy active_1)))
     = (Inl (RuntimeError ''central boom''), [''A:up'', ''A:down'', ''central-work''])"
    by (simp add: active_1_eval end_tenancy_def revert_initialized_def bA_def
        fake_bootstrapper_def central_boom_def)
  have a4: "central_work (Some tenant_a) (world (snd (end_tenancy active_1)))
     = (Inr (), [''A:up'', ''A:down'', ''central-work''])"
    by (simp add: active_1_eval end_tenancy_def revert_initialized_def bA_def
        fake_bootstrapper_def central_work_def)
  have a5: "fst (initialize tenant_a
          ((snd (end_tenancy active_1))\<lparr>world := [''A:up'', ''A:down'', ''central-work'']\<rparr>))
     = None"
    by (simp add: active_1_eval initialize_def same_tenant_def end_tenancy_def
        revert_initialized_def bA_def fake_bootstrapper_def)
  have a6: "calls active_1 @ map Revert (rev (initialized_bootstrappers active_1))
     = [Bootstrap bA tenant_a, Revert bA]"
    by (simp add: active_1_eval)
  from central_callback_raises [OF a1 a2 a0, where callback = central_boom
         and e = "RuntimeError ''central boom''"
         and w = "[''A:up'', ''A:down'', ''central-work'']"] a3 a6
  have A: "fst (central central_boom active_1) = Inl (RuntimeError ''central boom'') \<and>
   tenant (snd (central central_boom active_1)) = None \<and>
   \<not> initialized (snd (central central_boom active_1)) \<and>
   calls (snd (central central_boom active_1)) = [Bootstrap bA tenant_a, Revert bA]"
    by simp
  from central_callback_raises [OF a1 a2 a0, where callback = central_work and v = "()"
         and w = "[''A:up'', ''A:down'', ''central-work'']"] a4 a5
  have B: "fst (central central_work active_1) = Inr () \<and>
   tenant (snd (central central_work active_1)) = Some tenant_a \<and>
   initialized (snd (central central_work active_1))"
    by blast
  from a0 a1 a2 a3 a4 a5 A B show ?thesis by blast
qed

section \<open>Properties of the registry scans\<close>

lemma py_get_obj:
  "is_obj a \<Longrightarrow> py_get a ''id'' JNull = Inr v \<Longrightarrow> (v = JStr i) = has_id i a"
  by (cases a) (auto simp: is_obj_def has_id_def py_get_def dict_get_def split: option.splits)

lemma py_get_obj_ex: "is_obj a \<Longrightarrow> \<exists>v. py_get a ''id'' JNull = Inr v"
  by (cases a) (simp_all add: is_obj_def py_get_def)

lemma any_has_id_objs:
  "list_all is_obj entries \<Longrightarrow> any_has_id entries i = Inr (list_ex (has_id i) entries)"
proof (induction entries)
  case Nil
  then show ?case by simp
next
  case (Cons a entries)
  then have obj: "is_obj a" and rest: "list_all is_obj entries" by simp_all
  from py_get_obj_ex [OF obj] obtain v where v: "py_get a ''id'' JNull = Inr v" ..
  from py_get_obj [OF obj v, of i] Cons.IH [OF rest] v show ?case by simp
qed

lemma without_id_absent:
  "list_all is_obj entries \<Longrightarrow> \<not> list_ex (has_id i) entries \<Longrightarrow>
     without_id entries i = Inr entries"
proof (induction entries)
  case Nil
  then show ?case by simp
next
  case (Cons a entries)
  then have obj: "is_obj a" and rest: "list_all is_obj entries"
    and na: "\<not> has_id i a" and nrest: "\<not> list_ex (has_id i) entries" by simp_all
  from py_get_obj_ex [OF obj] obtain v where v: "py_get a ''id'' JNull = Inr v" ..
  from py_get_obj [OF obj v, of i] na Cons.IH [OF rest nrest] v show ?case by simp
qed

lemma agents_patch_list:
  "py_get (dict_get (agents_patch agents l) ''agents'' JNull) ''list'' JNull = Inr (JList l)"
  by (simp add: agents_patch_def dict_get_def py_get_def update_conv')

lemma two_pending_eval:
  "two_pending = \<lparr>request_id = 2, pending = [1 \<mapsto> 0, 2 \<mapsto> 1],
      futures = [Waiting, Waiting],
      sent = [(1, ''config.get'', JObj []), (2, ''config.patch'', JObj [])]\<rparr>"
  by (simp add: two_pending_def request_begin_def new_client_def)

section \<open>Claims about the agent registry\<close>

text \<open>
  C6. When \<open>config.get\<close> returns a snapshot whose registry list holds entries
  none of which carries the target id, removing the agent returns normally, the only
  call made on the gateway is that \<open>config.get\<close>, and the gateway is left in the
  state in which \<open>config.get\<close> left it: no \<open>config.patch\<close> is issued.
\<close>

theorem remove_absent_agent_noop:
  assumes "get_config gw (gw_state r) = (Inr snap, g1)"
    and "dict_get (config snap) ''agents'' (JObj []) = JObj agents"
    and "dict_get agents ''list'' (JList []) = JList entries"
    and "list_all is_obj entries"
    and "\<not> list_ex (has_id target) entries"
  shows "remove_agent_from_config gw target r
           = (None, r\<lparr>gw_state := g1, rpcs := rpcs r @ [ConfigGet]\<rparr>)"
  using assms without_id_absent [OF assms(4,5)]
  by (simp add: remove_agent_from_config_def call_get_config_def py_iter_def)

theorem remove_absent_agent_noop_witness:
  "get_config mock (gw_state (mock_with [acme_entry]))
     = (Inr \<lparr>config = [(''agents'', JObj [(''list'', JList [acme_entry])])], hash = ''hash-1''\<rparr>,
        gw_state (mock_with [acme_entry])) \<and>
   dict_get [(''agents'', JObj [(''list'', JList [acme_entry])])] ''agents'' (JObj [])
     = JObj [(''list'', JList [acme_entry])] \<and>
   dict_get [(''list'', JList [acme_entry])] ''list'' (JList []) = JList [acme_entry] \<and>
   list_all is_obj [acme_entry] \<and>
   \<not> list_ex (has_id ''tenant-other'') [acme_entry] \<and>
   remove_agent_from_config mock ''tenant-other'' (mock_with [acme_entry])
     = (None, (mock_with [acme_entry])\<lparr>rpcs := [ConfigGet]\<rparr>) \<and>
   mock_config (gw_state (snd (remove_agent_from_config mock ''tenant-other''
                                 (mock_with [acme_entry]))))
     = [(''agents'', JObj [(''list'', JList [acme_entry])])]"
proof -
  have h1: "get_config mock (gw_state (mock_with [acme_entry]))
     = (Inr \<lparr>config = [(''agents'', JObj [(''list'', JList [acme_entry])])], hash = ''hash-1''\<rparr>,
        gw_state (mock_with [acme_entry]))"
    by (simp add: mock_def mock_get_config_def mock_with_def)
  have h2: "dict_get (config \<lparr>config = [(''agents'', JObj [(''list'', JList [acme_entry])])],
                              hash = ''hash-1''\<rparr>) ''agents'' (JObj [])
     = JObj [(''list'', JList [acme_entry])]"
    by (simp add: dict_get_def)
  have h3: "dict_get [(''list'', JList [acme_entry])] ''list'' (JList []) = JList [acme_entry]"
    by (simp add: dict_get_def)
  have h4: "list_all is_obj [acme_entry]"
    by (simp add: is_obj_def acme_entry_def)
  have h5: "\<not> list_ex (has_id ''tenant-other'') [acme_entry]"
    by (simp add: has_id_def acme_entry_def)
  from remove_absent_agent_noop [OF h1 h2 h3 h4 h5] h1 h2 h3 h4 h5 show ?thesis
    by (simp add: mock_with_def)
qed

text \<open>
  C7. When the registry list of the snapshot holds an entry with the id of the new
  agent, adding it raises the duplicate error after the single \<open>config.get\<close>: no
  \<open>config.patch\<close> is issued and the gateway stays as \<open>config.get\<close> left it.
  Otherwise one \<open>config.patch\<close> is issued, with the hash of the snapshot read and
  a patch whose registry list is the entries read followed by the new entry, and
  its outcome is the outcome of the operation.
\<close>

theorem add_agent_duplicate_or_append:
  assumes "get_config gw (gw_state r) = (Inr snap, g1)"
    and "dict_get (config snap) ''agents'' (JObj []) = JObj agents"
    and "dict_get agents ''list'' (JList []) = JList entries"
    and "list_all is_obj entries"
  shows "(list_ex (has_id (agent_id agent)) entries \<longrightarrow>
            add_agent_to_config gw agent r
              = (Some (ValueError (''Agent '' @ agent_id agent @ '' already exists'')),
                 r\<lparr>gw_state := g1, rpcs := rpcs r @ [ConfigGet]\<rparr>)) \<and>
         (\<not> list_ex (has_id (agent_id agent)) entries \<longrightarrow>
            add_agent_to_config gw agent r
              = (fst (patch_config gw (agents_patch agents (entries @ [model_dump agent]))
                        (hash snap) g1),
                 r\<lparr>gw_state := snd (patch_config gw
                                       (agents_patch agents (entries @ [model_dump agent]))
                                       (hash snap) g1),
                   rpcs := rpcs r @ [ConfigGet,
                             ConfigPatch (agents_patch agents (entries @ [model_dump agent]))
                               (hash snap)]\<rparr>) \<and>
            py_get (dict_get (agents_patch agents (entries @ [model_dump agent])) ''agents'' JNull)
              ''list'' JNull = Inr (JList (entries @ [model_dump agent])))"
  using assms any_has_id_objs [OF assms(4), of "agent_id agent"]
    agents_patch_list [of agents "entries @ [model_dump agent]"]
  by (simp add: add_agent_to_config_def call_get_config_def call_patch_config_def py_iter_def
      split: prod.splits)

theorem add_agent_duplicate_or_append_witness:
  "get_config mock (gw_state (mock_with [acme_entry]))
     = (Inr \<lparr>config = [(''agents'', JObj [(''list'', JList [acme_entry])])], hash = ''hash-1''\<rparr>,
        gw_state (mock_with [acme_entry])) \<and>
   list_all is_obj [acme_entry] \<and>
   list_ex (has_id (agent_id acme_agent)) [acme_entry] \<and>
   add_agent_to_config mock acme_agent (mock_with [acme_entry])
     = (Some (ValueError ''Agent tenant-acme already exists''),
        (mock_with [acme_entry])\<lparr>rpcs := [ConfigGet]\<rparr>) \<and>
   get_config mock (gw_state (mock_with []))
     = (Inr \<lparr>config = [(''agents'', JObj [(''list'', JList [])])], hash = ''hash-1''\<rparr>,
        gw_state (mock_with [])) \<and>
   \<not> list_ex (has_id (agent_id acme_agent)) [] \<and>
   fst (add_agent_to_config mock acme_agent (mock_with [])) = None \<and>
   rpcs (snd (add_agent_to_config mock acme_agent (mock_with [])))
     = [ConfigGet,
        ConfigPatch [(''agents'', JObj [(''list'', JList [model_dump acme_agent])])] ''hash-1''] \<and>
   mock_config (gw_state (snd (add_agent_to_config mock acme_agent (mock_with []))))
     = [(''agents'', JObj [(''list'', JList [model_dump acme_agent])])]"
proof -
  have a1: "get_config mock (gw_state (mock_with [acme_entry]))
     = (Inr \<lparr>config = [(''agents'', JObj [(''list'', JList [acme_entry])])], hash = ''hash-1''\<rparr>,
        gw_state (mock_with [acme_entry]))"
    by (simp add: mock_def mock_get_config_def mock_with_def)
  have a2: "dict_get (config \<lparr>config = [(''agents'', JObj [(''list'', JList [acme_entry])])],
                              hash = ''hash-1''\<rparr>) ''agents'' (JObj [])
     = JObj [(''list'', JList [acme_entry])]"
    by (simp add: dict_get_def)
  have a3: "dict_get [(''list'', JList [acme_entry])] ''list'' (JList []) = JList [acme_entry]"
    by (simp add: dict_get_def)
  have a4: "list_all is_obj [acme_entry]"
    by (simp add: is_obj_def acme_entry_def)
  have a5: "list_ex (has_id (agent_id acme_agent)) [acme_entry]"
    by (simp add: has_id_def acme_entry_def acme_agent_def)
  have b1: "get_config mock (gw_state (mock_with []))
     = (Inr \<lparr>config = [(''agents'', JObj [(''list'', JList [])])], hash = ''hash-1''\<rparr>,
        gw_state (mock_with []))"
    by (simp add: mock_def mock_get_config_def mock_with_def)
  have b2: "dict_get (config \<lparr>config = [(''agents'', JObj [(''list'', JList [])])],
                              hash = ''hash-1''\<rparr>) ''agents'' (JObj [])
     = JObj [(''list'', JList [])]"
    by (simp add: dict_get_def)
  have b3: "dict_get [(''list'', JList [])] ''list'' (JList []) = JList []"
    by (simp add: dict_get_def)
  have b4: "list_all is_obj []" by simp
  have b5: "\<not> list_ex (has_id (agent_id acme_agent)) []" by simp
  from add_agent_duplicate_or_append [OF a1 a2 a3 a4, of acme_agent] a5
  have A: "add_agent_to_config mock acme_agent (mock_with [acme_entry])
     = (Some (ValueError ''Agent tenant-acme already exists''),
        (mock_with [acme_entry])\<lparr>rpcs := [ConfigGet]\<rparr>)"
    by (simp add: mock_with_def acme_agent_def)
  from add_agent_duplicate_or_append [OF b1 b2 b3 b4, of acme_agent] b5
  have B: "fst (add_agent_to_config mock acme_agent (mock_with [])) = None \<and>
   rpcs (snd (add_agent_to_config mock acme_agent (mock_with [])))
     = [ConfigGet,
        ConfigPatch [(''agents'', JObj [(''list'', JList [model_dump acme_agent])])] ''hash-1''] \<and>
   mock_config (gw_state (snd (add_agent_to_config mock acme_agent (mock_with []))))
     = [(''agents'', JObj [(''list'', JList [model_dump acme_agent])])]"
    by (simp add: mock_def mock_get_config_def mock_patch_config_def mock_with_def
        agents_patch_def)
  from a1 a4 a5 A b1 b5 B show ?thesis by blast
qed


section \<open>Claims about the pending table\<close>

text \<open>
  C4. When the time of a request runs out while its future is still waiting, the
  request raises the timeout error, its own id leaves the pending table, and every
  other entry and every other future is as before; a frame that arrives later for
  that id changes nothing and raises nothing. In any state, a frame whose id has no
  entry changes nothing, and a frame whose id maps to a future that is already done
  raises nothing, leaves all futures as they are and removes that one id only.
\<close>

theorem timeout_and_late_response:
  "(pending c req_id = Some fut \<and> fut < length (futures c) \<and> futures c ! fut = Waiting \<longrightarrow>
      fst (request_timeout method req_id (wait_for_expires fut c)) = TimeoutError method \<and>
      pending (snd (request_timeout method req_id (wait_for_expires fut c))) req_id = None \<and>
      (\<forall>j. j \<noteq> req_id \<longrightarrow>
         pending (snd (request_timeout method req_id (wait_for_expires fut c))) j = pending c j) \<and>
      (\<forall>g. g \<noteq> fut \<longrightarrow>
         futures (snd (request_timeout method req_id (wait_for_expires fut c))) ! g
           = futures c ! g) \<and>
      (as_int (dict_get msg ''id'' JNull) = Some req_id \<longrightarrow>
         read_frame (Inr (JObj msg)) (snd (request_timeout method req_id (wait_for_expires fut c)))
           = (None, snd (request_timeout method req_id (wait_for_expires fut c))))) \<and>
   (as_int (dict_get msg ''id'' JNull) = Some i \<and> pending c0 i = None \<longrightarrow>
      read_frame (Inr (JObj msg)) c0 = (None, c0)) \<and>
   (as_int (dict_get msg ''id'' JNull) = Some i \<and> pending c0 i = Some f \<and>
    is_done (futures c0 ! f) \<longrightarrow>
      fst (read_frame (Inr (JObj msg)) c0) = None \<and>
      futures (snd (read_frame (Inr (JObj msg)) c0)) = futures c0 \<and>
      pending (snd (read_frame (Inr (JObj msg)) c0)) i = None \<and>
      (\<forall>j. j \<noteq> i \<longrightarrow> pending (snd (read_frame (Inr (JObj msg)) c0)) j = pending c0 j))"
  by (simp add: request_timeout_def wait_for_expires_def read_frame_def)

theorem timeout_and_late_response_witness:
  "pending two_pending 1 = Some 0 \<and> 0 < length (futures two_pending) \<and>
   futures two_pending ! 0 = Waiting \<and>
   as_int (dict_get late_response ''id'' JNull) = Some 1 \<and>
   fst (request_timeout ''config.get'' 1 (wait_for_expires 0 two_pending))
     = TimeoutError ''config.get'' \<and>
   pending (snd (request_timeout ''config.get'' 1 (wait_for_expires 0 two_pending))) 1 = None \<and>
   pending (snd (request_timeout ''config.get'' 1 (wait_for_expires 0 two_pending))) 2 = Some 1 \<and>
   futures (snd (request_timeout ''config.get'' 1 (wait_for_expires 0 two_pending))) ! 1 = Waiting \<and>
   read_frame (Inr (JObj late_response))
       (snd (request_timeout ''config.get'' 1 (wait_for_expires 0 two_pending)))
     = (None, snd (request_timeout ''config.get'' 1 (wait_for_expires 0 two_pending))) \<and>
   pending new_client 1 = None \<and>
   read_frame (Inr (JObj late_response)) new_client = (None, new_client) \<and>
   pending (wait_for_expires 0 two_pending) 1 = Some 0 \<and>
   is_done (futures (wait_for_expires 0 two_pending) ! 0) \<and>
   fst (read_frame (Inr (JObj late_response)) (wait_for_expires 0 two_pending)) = None \<and>
   futures (snd (read_frame (Inr (JObj late_response)) (wait_for_expires 0 two_pending)))
     = [Cancelled, Waiting] \<and>
   pending (snd (read_frame (Inr (JObj late_response)) (wait_for_expires 0 two_pending))) 1 = None \<and>
   pending (snd (read_frame (Inr (JObj late_response)) (wait_for_expires 0 two_pending))) 2 = Some 1"
proof -
  have h1: "pending two_pending 1 = Some 0 \<and> 0 < length (futures two_pending) \<and>
      futures two_pending ! 0 = Waiting"
    by (simp add: two_pending_eval)
  have h2: "as_int (dict_get late_response ''id'' JNull) = Some 1"
    by (simp add: late_response_def dict_get_def as_int_def)
  have h3: "pending new_client 1 = None"
    by (simp add: new_client_def)
  have h4: "pending (wait_for_expires 0 two_pending) 1 = Some 0 \<and>
      is_done (futures (wait_for_expires 0 two_pending) ! 0)"
    by (simp add: two_pending_eval wait_for_expires_def is_done_def)
  have p2: "pending two_pending 2 = Some 1" "futures two_pending ! 1 = Waiting"
    "pending (wait_for_expires 0 two_pending) 2 = Some 1"
    "futures (wait_for_expires 0 two_pending) = [Cancelled, Waiting]"
    by (simp_all add: two_pending_eval wait_for_expires_def)
  from timeout_and_late_response
         [of two_pending 1 0 "''config.get''" late_response 1 new_client] h1 h2 h3 p2
  have A: "fst (request_timeout ''config.get'' 1 (wait_for_expires 0 two_pending))
     = TimeoutError ''config.get'' \<and>
   pending (snd (request_timeout ''config.get'' 1 (wait_for_expires 0 two_pending))) 1 = None \<and>
   pending (snd (request_timeout ''config.get'' 1 (wait_for_expires 0 two_pending))) 2 = Some 1 \<and>
   futures (snd (request_timeout ''config.get'' 1 (wait_for_expires 0 two_pending))) ! 1 = Waiting \<and>
   read_frame (Inr (JObj late_response))
       (snd (request_timeout ''config.get'' 1 (wait_for_expires 0 two_pending)))
     = (None, snd (request_timeout ''config.get'' 1 (wait_for_expires 0 two_pending))) \<and>
   read_frame (Inr (JObj late_response)) new_client = (None, new_client)"
    by simp
  from timeout_and_late_response
         [of _ _ _ _ late_response 1 "wait_for_expires 0 two_pending" 0] h2 h4 p2
  have B: "fst (read_frame (Inr (JObj late_response)) (wait_for_expires 0 two_pending)) = None \<and>
   futures (snd (read_frame (Inr (JObj late_response)) (wait_for_expires 0 two_pending)))
     = [Cancelled, Waiting] \<and>
   pending (snd (read_frame (Inr (JObj late_response)) (wait_for_expires 0 two_pending))) 1 = None \<and>
   pending (snd (read_frame (Inr (JObj late_response)) (wait_for_expires 0 two_pending))) 2 = Some 1"
    by simp
  from h1 h2 h3 h4 A B show ?thesis by blast
qed

end
